theory Spec2Isabelle
  imports Main "HOL-Library.Sublist"
begin

section \<open>JavaScript values and strings\<close>

text \<open>
  The resume generator of \<^verbatim>\<open>ai-resume-mcp-server/src/index.js\<close> works on strings and on
  JSON data. A JavaScript string is modelled as a \<^typ>\<open>string\<close>, one \<^typ>\<open>char\<close> per code unit
  (code units below 256, which covers ASCII and Latin-1 text); \<^verbatim>\<open>length\<close> counts code units
  as the source does. A value whose type the source tests at run time is a \<open>jsval\<close>.
\<close>

datatype jsval =
    JUndefined
  | JNull
  | JBool bool
  | JNum int
  | JStr string
  | JObj

text \<open>Errors the runtime or the file system raises; each is an \<^verbatim>\<open>Error\<close> object with a message.\<close>

datatype exn =
    TypeError string
  | Error string

fun message :: "exn \<Rightarrow> string" where
  "message (TypeError m) = m"
| "message (Error m) = m"

abbreviation BSL :: char where
  "BSL \<equiv> CHR 0x5C"

abbreviation NL :: char where
  "NL \<equiv> CHR 0x0A"

text \<open>\<^verbatim>\<open>String.prototype.trim\<close>: white space and line terminators among the code units below 256.\<close>

definition isWhiteSpace :: "char \<Rightarrow> bool" where
  "isWhiteSpace c = (of_char c \<in> {9, 10, 11, 12, 13, 32, 160 :: nat})"

definition trim :: "string \<Rightarrow> string" where
  "trim s = rev (dropWhile isWhiteSpace (rev (dropWhile isWhiteSpace s)))"

text \<open>\<^verbatim>\<open>String.prototype.toLowerCase\<close> on code units below 256: A-Z and the Latin-1 capitals.\<close>

definition lowerChar :: "char \<Rightarrow> char" where
  "lowerChar c =
     (let n = (of_char c :: nat) in
      if (65 \<le> n \<and> n \<le> 90) \<or> (192 \<le> n \<and> n \<le> 222 \<and> n \<noteq> 215)
      then char_of (n + 32) else c)"

definition toLowerCase :: "string \<Rightarrow> string" where
  "toLowerCase s = map lowerChar s"

text \<open>\<^verbatim>\<open>s.includes(n)\<close>: \<open>n\<close> occurs in \<open>s\<close> as a contiguous substring.\<close>

definition includes_js :: "string \<Rightarrow> string \<Rightarrow> bool" where
  "includes_js s n = sublist n s"

text \<open>\<^verbatim>\<open>xs.join(sep)\<close>.\<close>

fun join :: "string \<Rightarrow> string list \<Rightarrow> string" where
  "join sep [] = []"
| "join sep [x] = x"
| "join sep (x # y # ys) = x @ sep @ join sep (y # ys)"

section \<open>Sanitizer\<close>

text \<open>
  \<^verbatim>\<open>text.replace(/c/g, r)\<close> for a pattern that is one literal character and a replacement
  string \<open>r\<close> in which no dollar sign is followed by a pattern character: every occurrence of
  \<open>c\<close> becomes \<open>r\<close>.
\<close>

definition replaceChar :: "char \<Rightarrow> string \<Rightarrow> string \<Rightarrow> string" where
  "replaceChar c r s = concat (map (\<lambda>x. if x = c then r else [x]) s)"

text \<open>
  \<^verbatim>\<open>sanitizeLatex(text)\<close>: the guard returns the empty string for every falsy value and every
  value that is not a string; otherwise the nine replacements run one after the other, each on
  the result of the one before.
\<close>

definition sanitizeLatex :: "jsval \<Rightarrow> string" where
  "sanitizeLatex text =
     (case text of
        JStr s \<Rightarrow>
          if s = [] then []
          else
            replaceChar (CHR ''}'') [BSL, CHR ''}'']
            (replaceChar (CHR ''{'') [BSL, CHR ''{'']
            (replaceChar (CHR ''_'') [BSL, CHR ''_'']
            (replaceChar (CHR ''~'') (BSL # ''~{}'')
            (replaceChar (CHR ''^'') (BSL # ''^{}'')
            (replaceChar (CHR ''#'') [BSL, CHR ''#'']
            (replaceChar (CHR ''$'') [BSL, CHR ''$'']
            (replaceChar (CHR ''%'') [BSL, CHR ''%'']
            (replaceChar (CHR ''&'') [BSL, CHR ''&''] s))))))))
      | _ \<Rightarrow> [])"

text \<open>What the nine replacements make of one character of the input.\<close>

definition escapeChar :: "char \<Rightarrow> string" where
  "escapeChar c =
     (if c = CHR ''&'' then [BSL, CHR ''&'']
      else if c = CHR ''%'' then [BSL, CHR ''%'']
      else if c = CHR ''$'' then [BSL, CHR ''$'']
      else if c = CHR ''#'' then [BSL, CHR ''#'']
      else if c = CHR ''^'' then [BSL, CHR ''^'', BSL, CHR ''{'', BSL, CHR ''}'']
      else if c = CHR ''~'' then [BSL, CHR ''~'', BSL, CHR ''{'', BSL, CHR ''}'']
      else if c = CHR ''_'' then [BSL, CHR ''_'']
      else if c = CHR ''{'' then [BSL, CHR ''{'']
      else if c = CHR ''}'' then [BSL, CHR ''}'']
      else [c])"

section \<open>Knowledge base\<close>

text \<open>
  The JSON records the generator reads. A field the source guards (by \<^verbatim>\<open>?.\<close>, by
  \<^verbatim>\<open>||\<close>, by a truthiness test) is an option, \<open>None\<close> for an absent field; a field that
  only reaches \<^verbatim>\<open>sanitizeLatex\<close> or a strict comparison is a \<open>jsval\<close>; the other fields
  have the type the source uses them at.
\<close>

record duration =
  start_date :: jsval
  end_date :: jsval

record work_position =
  company :: jsval
  position :: string
  location :: jsval
  duration :: duration
  status :: jsval
  description :: "string list option"
  technologies :: "string list option"
  achievements :: "string list option"

text \<open>\<^verbatim>\<open>{...pos, relevanceScore: ...}\<close>: the position with one more field.\<close>

record scored_position = work_position +
  relevanceScore :: nat

record work_experience =
  positions :: "work_position list"

section \<open>Keyword extraction\<close>

definition techKeywords :: "string list" where
  "techKeywords =
    [''python'', ''java'', ''javascript'', ''react'', ''node.js'', ''spring boot'',
     ''aws'', ''docker'', ''kubernetes'', ''postgresql'', ''mongodb'', ''redis'',
     ''microservices'', ''api'', ''rest'', ''graphql'', ''ci/cd'', ''devops'',
     ''machine learning'', ''ai'', ''tensorflow'', ''pytorch'', ''cloud'',
     ''backend'', ''frontend'', ''full-stack'', ''agile'', ''scrum'', ''git'',
     ''linux'', ''oauth'', ''jwt'', ''security'', ''performance'', ''scalability'']"

text \<open>
  \<^verbatim>\<open>extractJobKeywords(jobDescription)\<close>. Calling \<^verbatim>\<open>toLowerCase\<close> on a value that is not
  a string raises a \<^verbatim>\<open>TypeError\<close>.
\<close>

definition extractJobKeywords :: "jsval \<Rightarrow> exn + string list" where
  "extractJobKeywords jobDescription =
     (case jobDescription of
        JStr s \<Rightarrow>
          (let descriptionLower = toLowerCase s
           in Inr (filter (\<lambda>keyword. includes_js descriptionLower keyword) techKeywords))
      | JUndefined \<Rightarrow> Inl (TypeError ''Cannot read properties of undefined (reading 'toLowerCase')'')
      | JNull \<Rightarrow> Inl (TypeError ''Cannot read properties of null (reading 'toLowerCase')'')
      | _ \<Rightarrow> Inl (TypeError ''jobDescription.toLowerCase is not a function''))"

section \<open>Relevance scoring\<close>

text \<open>
  \<^verbatim>\<open>(searchText.match(new RegExp(keywordLower, 'g')) || []).length\<close>: the keyword is compiled
  as a regular expression. The model covers the patterns whose characters are literal or the
  dot, which is what every keyword of \<open>techKeywords\<close> is: a dot matches any character but a
  line terminator, any other character matches itself; the global search counts the matches
  from left to right, each starting where the one before ended (one character further after
  an empty match).
\<close>

definition patternChar :: "char \<Rightarrow> char \<Rightarrow> bool" where
  "patternChar p c = (if p = CHR ''.'' then c \<noteq> NL \<and> c \<noteq> CHR 0x0D else p = c)"

fun matchesAt :: "string \<Rightarrow> string \<Rightarrow> bool" where
  "matchesAt [] cs = True"
| "matchesAt (p # ps) [] = False"
| "matchesAt (p # ps) (c # cs) = (patternChar p c \<and> matchesAt ps cs)"

function countMatches :: "string \<Rightarrow> string \<Rightarrow> nat" where
  "countMatches pat [] = (if pat = [] then 1 else 0)"
| "countMatches pat (c # cs) =
     (if matchesAt pat (c # cs) then Suc (countMatches pat (drop (length pat - 1) cs))
      else countMatches pat cs)"
  by pat_completeness auto
termination
  by (relation "measure (\<lambda>(pat, s). length s)") auto

text \<open>\<^verbatim>\<open>xs?.join(' ') || ''\<close>.\<close>

definition joinOpt :: "string list option \<Rightarrow> string" where
  "joinOpt xs = (case xs of None \<Rightarrow> [] | Some ys \<Rightarrow> join '' '' ys)"

definition searchTextOf :: "'a work_position_scheme \<Rightarrow> string" where
  "searchTextOf pos =
     toLowerCase (join '' '' [joinOpt (description pos), joinOpt (technologies pos),
                              joinOpt (achievements pos)])"

definition calculateRelevanceScore :: "'a work_position_scheme \<Rightarrow> string list \<Rightarrow> nat" where
  "calculateRelevanceScore pos jobKeywords =
     (let searchText = searchTextOf pos;
          score = foldl (\<lambda>score keyword.
                    score + countMatches (toLowerCase keyword) searchText * 2) 0 jobKeywords;
          score = (if status pos = JStr ''Current'' then score + 5 else score);
          score = (if includes_js (toLowerCase (position pos)) ''engineer'' \<or>
                      includes_js (toLowerCase (position pos)) ''developer''
                   then score + 3 else score)
      in score)"

section \<open>Experience selection\<close>

definition fillerText :: string where
  "fillerText = ''significant performance improvements''"

text \<open>\<^verbatim>\<open>pos.achievements[i] || 'significant performance improvements'\<close> for an integer index.\<close>

definition achievementOr :: "string list \<Rightarrow> int \<Rightarrow> string" where
  "achievementOr achs i =
     (if 0 \<le> i \<and> nat i < length achs \<and> achs ! nat i \<noteq> [] then achs ! nat i else fillerText)"

text \<open>
  The \<^verbatim>\<open>while\<close> loop of \<^verbatim>\<open>selectRelevantExperience\<close>: \<open>dlen\<close> is
  \<^verbatim>\<open>pos.description.length\<close>; an array, also an empty one, is truthy.
\<close>

function fillBullets :: "string list \<Rightarrow> nat \<Rightarrow> string list option \<Rightarrow> string list" where
  "fillBullets bulletPoints dlen achs =
     (case achs of
        Some as \<Rightarrow>
          if length bulletPoints < 3
          then fillBullets
                 (bulletPoints @
                    [''Achieved '' @ achievementOr as (int (length bulletPoints) - int dlen)])
                 dlen achs
          else bulletPoints
      | None \<Rightarrow> bulletPoints)"
  by pat_completeness auto
termination
  by (relation "measure (\<lambda>(bps, dlen, achs). 3 - length bps)") auto

text \<open>
  The body of the final \<^verbatim>\<open>map\<close>: \<^verbatim>\<open>pos.description.slice\<close> raises when the position has
  no description.
\<close>

definition enforceBullets :: "scored_position \<Rightarrow> exn + scored_position" where
  "enforceBullets pos =
     (case description pos of
        None \<Rightarrow> Inl (TypeError ''Cannot read properties of undefined (reading 'slice')'')
      | Some d \<Rightarrow>
          (let bulletPoints = fillBullets (take 3 d) (length d) (achievements pos)
           in Inr (pos\<lparr>description := Some (take 3 bulletPoints)\<rparr>)))"

text \<open>\<^verbatim>\<open>xs.map(f)\<close> for an \<open>f\<close> that may raise: the first error ends the map.\<close>

fun mapE :: "('a \<Rightarrow> exn + 'b) \<Rightarrow> 'a list \<Rightarrow> exn + 'b list" where
  "mapE f [] = Inr []"
| "mapE f (x # xs) =
     (case f x of
        Inl e \<Rightarrow> Inl e
      | Inr y \<Rightarrow> (case mapE f xs of Inl e \<Rightarrow> Inl e | Inr ys \<Rightarrow> Inr (y # ys)))"

text \<open>
  The positions scored, sorted by descending score (\<^verbatim>\<open>Array.prototype.sort\<close> is stable) and
  cut to the first four.
\<close>

definition scorePosition :: "string list \<Rightarrow> work_position \<Rightarrow> scored_position" where
  "scorePosition jobKeywords pos =
     work_position.extend pos
       (scored_position.fields (calculateRelevanceScore pos jobKeywords))"

definition topPositions :: "work_experience \<Rightarrow> string list \<Rightarrow> scored_position list" where
  "topPositions workExp jobKeywords =
     take 4 (sort_key (\<lambda>p. - int (relevanceScore p))
               (map (scorePosition jobKeywords) (positions workExp)))"

definition selectRelevantExperience :: "work_experience \<Rightarrow> jsval \<Rightarrow> exn + scored_position list" where
  "selectRelevantExperience workExp jobDescription =
     (case extractJobKeywords jobDescription of
        Inl e \<Rightarrow> Inl e
      | Inr jobKeywords \<Rightarrow> mapE enforceBullets (topPositions workExp jobKeywords))"

definition achievementList :: "'a work_position_scheme \<Rightarrow> string list" where
  "achievementList pos = (case achievements pos of None \<Rightarrow> [] | Some as \<Rightarrow> as)"

subsection \<open>The scoring formula as the specification words it\<close>

text \<open>
  The number of places of the text at which the keyword occurs as a substring, and the score
  the specification describes: twice that number, summed over the keywords, and the two
  bonuses. Only the comparison with \<open>calculateRelevanceScore\<close> uses these.
\<close>

fun occurrences :: "string \<Rightarrow> string \<Rightarrow> nat" where
  "occurrences kw [] = (if kw = [] then 1 else 0)"
| "occurrences kw (c # cs) = (if prefix kw (c # cs) then 1 else 0) + occurrences kw cs"

definition specRelevanceScore :: "'a work_position_scheme \<Rightarrow> string list \<Rightarrow> nat" where
  "specRelevanceScore pos jobKeywords =
     (\<Sum>keyword\<leftarrow>jobKeywords. 2 * occurrences (toLowerCase keyword) (searchTextOf pos))
     + (if status pos = JStr ''Current'' then 5 else 0)
     + (if includes_js (toLowerCase (position pos)) ''engineer'' \<or>
           includes_js (toLowerCase (position pos)) ''developer'' then 3 else 0)"

section \<open>Sample data\<close>

definition samplePosition :: work_position where
  "samplePosition =
     \<lparr>company = JStr ''Acme'', position = ''Analyst'', location = JStr ''New York'',
      duration = \<lparr>start_date = JStr ''June 2024'', end_date = JStr ''Present''\<rparr>,
      status = JStr ''Completed'',
      description = Some [''Built Node JS services''],
      technologies = None,
      achievements = Some [''lower costs'', ''faster releases'']\<rparr>"

text \<open>The same position with one achievement only.\<close>

definition sparsePosition :: work_position where
  "sparsePosition = samplePosition\<lparr>achievements := Some [''lower costs'']\<rparr>"

definition sampleWorkExp :: work_experience where
  "sampleWorkExp = \<lparr>positions = [samplePosition, sparsePosition]\<rparr>"

definition sampleJobDescription :: jsval where
  "sampleJobDescription = JStr ''We build Node.js services''"

section \<open>Project selection\<close>

text \<open>
  A project of the portfolio (\<^verbatim>\<open>projectData.project\<close>). \<^verbatim>\<open>project.summary || project.raw_summary\<close>
  takes the summary unless it is absent or empty.
\<close>

record project =
  title :: string
  summary :: "string option"
  raw_summary :: "string option"

definition summaryOrRaw :: "'a project_scheme \<Rightarrow> string option" where
  "summaryOrRaw p =
     (case summary p of
        Some s \<Rightarrow> if s \<noteq> [] then Some s else raw_summary p
      | None \<Rightarrow> raw_summary p)"

text \<open>\<^verbatim>\<open>s.split(/[.!]/)\<close>: the pieces between the separator characters, empty pieces included.\<close>

fun splitOn :: "(char \<Rightarrow> bool) \<Rightarrow> string \<Rightarrow> string list" where
  "splitOn sep [] = [[]]"
| "splitOn sep (c # cs) =
     (if sep c then [] # splitOn sep cs
      else (case splitOn sep cs of
              [] \<Rightarrow> [[c]]
            | x # xs \<Rightarrow> (c # x) # xs))"

definition sentenceEnd :: "char \<Rightarrow> bool" where
  "sentenceEnd c = (c = CHR ''.'' \<or> c = CHR ''!'')"

definition isDigit :: "char \<Rightarrow> bool" where
  "isDigit c = (48 \<le> (of_char c :: nat) \<and> (of_char c :: nat) \<le> 57)"

text \<open>\<^verbatim>\<open>/\d+c/\<close> matches somewhere: a digit stands right before the character \<open>c\<close>.\<close>

definition digitsThen :: "char \<Rightarrow> string \<Rightarrow> bool" where
  "digitsThen c s = list_ex (\<lambda>(a, b). isDigit a \<and> b = c) (zip s (tl s))"

text \<open>
  \<^verbatim>\<open>/\d+%|\d+x|performance|optimization|implementation|development|architecture/.test(s.toLowerCase())\<close>
\<close>

definition isTechnical :: "string \<Rightarrow> bool" where
  "isTechnical s =
     (let l = toLowerCase s
      in digitsThen (CHR ''%'') l \<or> digitsThen (CHR ''x'') l \<or>
         includes_js l ''performance'' \<or> includes_js l ''optimization'' \<or>
         includes_js l ''implementation'' \<or> includes_js l ''development'' \<or>
         includes_js l ''architecture'')"

text \<open>\<^verbatim>\<open>bp.replace(/^\*+\s*/, '')\<close>: leading asterisks and the white space after them go.\<close>

definition stripStars :: "string \<Rightarrow> string" where
  "stripStars s =
     (case s of
        [] \<Rightarrow> []
      | c # cs \<Rightarrow>
          if c = CHR ''*'' then dropWhile isWhiteSpace (dropWhile (\<lambda>x. x = CHR ''*'') s)
          else s)"

definition sentencesOf :: "string \<Rightarrow> string list" where
  "sentencesOf s = filter (\<lambda>f. length (trim f) > 20) (splitOn sentenceEnd s)"

definition generateProjectBulletPoints :: "'a project_scheme \<Rightarrow> exn + string list" where
  "generateProjectBulletPoints p =
     (case summaryOrRaw p of
        None \<Rightarrow> Inl (TypeError ''Cannot read properties of undefined (reading 'split')'')
      | Some s \<Rightarrow>
          (let sentences = sentencesOf s;
               technicalSentences = filter isTechnical sentences;
               bulletPoints =
                 (if length technicalSentences \<ge> 2 then take 2 technicalSentences
                  else take 2 sentences)
           in Inr (take 2 (filter (\<lambda>bp. length bp > 0)
                             (map (\<lambda>bp. stripStars (trim bp)) bulletPoints)))))"

text \<open>\<^verbatim>\<open>calculateProjectRelevanceScore\<close>: the search text is the summary, or the empty string.\<close>

definition calculateProjectRelevanceScore :: "'a project_scheme \<Rightarrow> string list \<Rightarrow> nat" where
  "calculateProjectRelevanceScore p jobKeywords =
     (let searchText = toLowerCase (case summaryOrRaw p of None \<Rightarrow> [] | Some s \<Rightarrow> s)
      in foldl (\<lambda>score keyword.
                  score + countMatches (toLowerCase keyword) searchText * 2) 0 jobKeywords)"

record scored_project = project +
  projectScore :: nat
  githubUrl :: string
  bulletPoints :: "string list"

text \<open>
  The body of the \<^verbatim>\<open>map\<close> of \<^verbatim>\<open>selectRelevantProjects\<close>; the field \<open>projectScore\<close> is the
  \<^verbatim>\<open>relevanceScore\<close> of the scored project.
\<close>

definition scoreProject :: "string list \<Rightarrow> project \<Rightarrow> exn + scored_project" where
  "scoreProject jobKeywords p =
     (let score = calculateProjectRelevanceScore p jobKeywords
      in case generateProjectBulletPoints p of
           Inl e \<Rightarrow> Inl e
         | Inr bps \<Rightarrow>
             Inr (project.extend p
                    (scored_project.fields score (''https://github.com/Dextron04/'' @ title p) bps)))"

definition selectRelevantProjects :: "project list \<Rightarrow> jsval \<Rightarrow> exn + scored_project list" where
  "selectRelevantProjects projects jobDescription =
     (case extractJobKeywords jobDescription of
        Inl e \<Rightarrow> Inl e
      | Inr jobKeywords \<Rightarrow>
          (case mapE (scoreProject jobKeywords) projects of
             Inl e \<Rightarrow> Inl e
           | Inr scoredProjects \<Rightarrow>
               Inr (take 3 (sort_key (\<lambda>p. - int (projectScore p)) scoredProjects))))"

definition sampleProject :: project where
  "sampleProject =
     \<lparr>title = ''ConnectX'',
      summary = Some ''Real-time chat built with Socket.io rooms. Implemented JWT authentication for all users.'',
      raw_summary = None\<rparr>"




section \<open>Template splicing\<close>

subsection \<open>Searching and replacing\<close>

text \<open>
  The first occurrence of a literal text: the part before it and the part after it.
\<close>

fun findFirst :: "string \<Rightarrow> string \<Rightarrow> (string \<times> string) option" where
  "findFirst needle [] = (if needle = [] then Some ([], []) else None)"
| "findFirst needle (c # cs) =
     (if prefix needle (c # cs) then Some ([], drop (length needle) (c # cs))
      else map_option (\<lambda>(a, b). (c # a, b)) (findFirst needle cs))"

definition digitValue :: "char \<Rightarrow> nat" where
  "digitValue c = of_char c - 48"

text \<open>
  The replacement text of \<^verbatim>\<open>String.prototype.replace\<close> (GetSubstitution of ECMAScript) for a
  pattern without named groups: \<^verbatim>\<open>$$\<close> is a dollar sign, \<^verbatim>\<open>$&\<close> the matched text,
  \<^verbatim>\<open>$`\<close> the text before the match, \<^verbatim>\<open>$'\<close> the text after it, \<^verbatim>\<open>$n\<close> and \<^verbatim>\<open>$nn\<close> the
  capture of that number when the pattern has that many groups (a two-digit number that is
  too large is read as one digit and a literal digit); any other dollar sign stands for itself.
\<close>

fun getSubstitution :: "string list \<Rightarrow> string \<Rightarrow> string \<Rightarrow> string \<Rightarrow> string \<Rightarrow> string" where
  "getSubstitution caps matched preceding following [] = []"
| "getSubstitution caps matched preceding following [c] = [c]"
| "getSubstitution caps matched preceding following (c # d # r) =
     (if c \<noteq> CHR ''$'' then c # getSubstitution caps matched preceding following (d # r)
      else if d = CHR ''$'' then CHR ''$'' # getSubstitution caps matched preceding following r
      else if d = CHR ''&'' then matched @ getSubstitution caps matched preceding following r
      else if d = CHR 0x60 then preceding @ getSubstitution caps matched preceding following r
      else if d = CHR 0x27 then following @ getSubstitution caps matched preceding following r
      else if isDigit d \<and> r \<noteq> [] \<and> isDigit (hd r) \<and>
              1 \<le> 10 * digitValue d + digitValue (hd r) \<and>
              10 * digitValue d + digitValue (hd r) \<le> length caps
        then caps ! (10 * digitValue d + digitValue (hd r) - 1)
               @ getSubstitution caps matched preceding following (tl r)
      else if isDigit d \<and> 1 \<le> digitValue d \<and> digitValue d \<le> length caps
        then caps ! (digitValue d - 1) @ getSubstitution caps matched preceding following r
      else CHR ''$'' # getSubstitution caps matched preceding following (d # r))"

subsection \<open>The three patterns\<close>

text \<open>The two section names \<^verbatim>\<open>buildLatexResume\<close> passes to \<^verbatim>\<open>replaceSection\<close>.\<close>

datatype section_name = Experience | Projects

text \<open>\<^verbatim>\<open>'%-----------' + sectionName.toUpperCase() + '-----------'\<close>\<close>

fun sectionStart :: "section_name \<Rightarrow> string" where
  "sectionStart Experience = ''%-----------EXPERIENCE-----------''"
| "sectionStart Projects = ''%-----------PROJECTS-----------''"

definition listStart :: string where
  "listStart = [BSL] @ ''resumeSubHeadingListStart''"

definition listEnd :: string where
  "listEnd = [BSL] @ ''resumeSubHeadingListEnd''"

text \<open>
  A match of a pattern of \<^verbatim>\<open>replaceSection\<close> or \<^verbatim>\<open>replaceSkillsSection\<close>: the text before
  the match, the three groups, the text after the match.
\<close>

record region_match =
  textBefore :: string
  group1 :: string
  group2 :: string
  group3 :: string
  textAfter :: string

text \<open>
  The pattern \<^verbatim>\<open>(START.*?\\resumeSubHeadingListStart)(.*?)(\\resumeSubHeadingListEnd)\<close> with the
  flag \<^verbatim>\<open>s\<close>. The leftmost match of literals joined by lazy \<^verbatim>\<open>.*?\<close> is found by taking the
  first occurrence of the first literal, then the first occurrence of each next literal after
  the one before: when any match exists, this choice of occurrences is one, and the matcher
  tries it first.
\<close>

definition matchSection :: "section_name \<Rightarrow> string \<Rightarrow> region_match option" where
  "matchSection sectionName latexContent =
     (case findFirst (sectionStart sectionName) latexContent of
        None \<Rightarrow> None
      | Some (pre, r1) \<Rightarrow>
          (case findFirst listStart r1 of
             None \<Rightarrow> None
           | Some (a, r2) \<Rightarrow>
               (case findFirst listEnd r2 of
                  None \<Rightarrow> None
                | Some (inner, post) \<Rightarrow>
                    Some \<lparr>textBefore = pre,
                          group1 = sectionStart sectionName @ a @ listStart,
                          group2 = inner,
                          group3 = listEnd,
                          textAfter = post\<rparr>)))"

text \<open>\<^verbatim>\<open>latexContent.replace(regex, replacement)\<close> for a pattern with three groups.\<close>

definition replaceMatch :: "region_match option \<Rightarrow> string \<Rightarrow> string \<Rightarrow> string" where
  "replaceMatch m replacement latexContent =
     (case m of
        None \<Rightarrow> latexContent
      | Some r \<Rightarrow>
          textBefore r
          @ getSubstitution [group1 r, group2 r, group3 r] (group1 r @ group2 r @ group3 r)
              (textBefore r) (textAfter r) replacement
          @ textAfter r)"

definition replaceSection :: "string \<Rightarrow> section_name \<Rightarrow> string \<Rightarrow> string" where
  "replaceSection latexContent sectionName newContent =
     replaceMatch (matchSection sectionName latexContent)
       (''$1'' @ [NL, NL] @ newContent @ [NL, NL] @ ''  $3'') latexContent"

definition skillsStart :: string where
  "skillsStart = ''%------SKILLS SECTION-------''"

definition skillsHeading :: string where
  "skillsHeading = [BSL] @ ''section{Skills}''"

definition smallLine :: string where
  "smallLine = [BSL] @ ''small'' @ [NL]"

definition vspaceLine :: string where
  "vspaceLine = [NL, BSL] @ ''vspace{-12pt}''"

text \<open>
  The pattern
  \<^verbatim>\<open>(%------SKILLS SECTION-------.*?\\section\{Skills\}.*?\\small\n)(.*?)(\n\\vspace\{-12pt\})\<close>
  with the flag \<^verbatim>\<open>s\<close>.
\<close>

definition matchSkills :: "string \<Rightarrow> region_match option" where
  "matchSkills latexContent =
     (case findFirst skillsStart latexContent of
        None \<Rightarrow> None
      | Some (pre, r1) \<Rightarrow>
          (case findFirst skillsHeading r1 of
             None \<Rightarrow> None
           | Some (a, r2) \<Rightarrow>
               (case findFirst smallLine r2 of
                  None \<Rightarrow> None
                | Some (b, r3) \<Rightarrow>
                    (case findFirst vspaceLine r3 of
                       None \<Rightarrow> None
                     | Some (inner, post) \<Rightarrow>
                         Some \<lparr>textBefore = pre,
                               group1 = skillsStart @ a @ skillsHeading @ b @ smallLine,
                               group2 = inner,
                               group3 = vspaceLine,
                               textAfter = post\<rparr>))))"

definition replaceSkillsSection :: "string \<Rightarrow> string \<Rightarrow> string" where
  "replaceSkillsSection latexContent skillsContent =
     replaceMatch (matchSkills latexContent) (''$1'' @ skillsContent @ ''$3'') latexContent"

definition resumeItemOpen :: string where
  "resumeItemOpen = [BSL] @ ''resumeItem{''"

definition sentinel :: string where
  "sentinel = ''Software Engineer with''"

text \<open>
  The pattern \<^verbatim>\<open>\\resumeItem\{[^}]*Software Engineer with[^}]*\}\<close>: at the leftmost
  \<^verbatim>\<open>\resumeItem{\<close> whose argument, the characters up to the next closing brace, holds the
  sentinel phrase and is closed by a brace. The result is the text before the match, the
  argument, and the text after the closing brace.
\<close>

fun matchSummary :: "string \<Rightarrow> (string \<times> string \<times> string) option" where
  "matchSummary [] = None"
| "matchSummary (c # cs) =
     (let rest = drop (length resumeItemOpen) (c # cs);
          arg = takeWhile (\<lambda>x. x \<noteq> CHR ''}'') rest;
          closing = dropWhile (\<lambda>x. x \<noteq> CHR ''}'') rest
      in if prefix resumeItemOpen (c # cs) \<and> includes_js arg sentinel \<and> closing \<noteq> []
         then Some ([], arg, tl closing)
         else map_option (\<lambda>(pre, arg, post). (c # pre, arg, post)) (matchSummary cs))"

text \<open>\<^verbatim>\<open>latexContent.replace(/\\resumeItem\{...\}/s, summarySection)\<close>; the pattern has no group.\<close>

definition replaceSummary :: "string \<Rightarrow> string \<Rightarrow> string" where
  "replaceSummary latexContent summarySection =
     (case matchSummary latexContent of
        None \<Rightarrow> latexContent
      | Some (pre, arg, post) \<Rightarrow>
          pre @ getSubstitution [] (resumeItemOpen @ arg @ ''}'') pre post summarySection @ post)"

section \<open>Skill selection\<close>

record skill =
  name :: string
  proficiency :: jsval
  skill_context :: "string list"

text \<open>
  A skill (the field \<open>skill_context\<close> is the \<^verbatim>\<open>context\<close> of the source) and a skill category;
  the other fields of a category travel with it and are never read.
\<close>

record skill_category =
  skills :: "skill list"

text \<open>\<^verbatim>\<open>Object.entries(skillCategories)\<close>: the categories by key, in the order of the object.\<close>

type_synonym skill_categories = "(string \<times> skill_category) list"

definition isRelevantSkill :: "string list \<Rightarrow> skill \<Rightarrow> bool" where
  "isRelevantSkill jobKeywords sk =
     list_ex (\<lambda>keyword.
        includes_js (toLowerCase (name sk)) (toLowerCase keyword) \<or>
        list_ex (\<lambda>ctx. includes_js (toLowerCase ctx) (toLowerCase keyword)) (skill_context sk))
       jobKeywords"

definition isProficient :: "skill \<Rightarrow> bool" where
  "isProficient sk = (proficiency sk = JStr ''Advanced'' \<or> proficiency sk = JStr ''Intermediate'')"

definition selectRelevantSkills :: "skill_categories \<Rightarrow> jsval \<Rightarrow> exn + skill_categories" where
  "selectRelevantSkills skillCategories jobDescription =
     (case extractJobKeywords jobDescription of
        Inl e \<Rightarrow> Inl e
      | Inr jobKeywords \<Rightarrow>
          Inr (concat (map (\<lambda>(category, categoryData).
                 (let relevantSkillsInCategory =
                        filter (\<lambda>sk. isRelevantSkill jobKeywords sk \<or> isProficient sk)
                          (skills categoryData)
                  in if length relevantSkillsInCategory > 0
                     then [(category, categoryData\<lparr>skills := take 8 relevantSkillsInCategory\<rparr>)]
                     else []))
               skillCategories)))"

section \<open>Tailored summary\<close>

text \<open>The fields of \<^verbatim>\<open>profile.profile_summary\<close> that the summary reads.\<close>

record profile =
  total_experience :: string
  key_achievements :: "string list"
  strongest_areas :: "string list"

definition generateTailoredSummary :: "profile \<Rightarrow> jsval \<Rightarrow> string \<Rightarrow> exn + string" where
  "generateTailoredSummary prof jobDescription jobTitle =
     (case extractJobKeywords jobDescription of
        Inl e \<Rightarrow> Inl e
      | Inr jobKeywords \<Rightarrow>
          (let relevantAchievements = take 2 (key_achievements prof);
               relevantTech =
                 take 3 (filter (\<lambda>area. list_ex (\<lambda>keyword.
                            includes_js (toLowerCase area) (toLowerCase keyword)) jobKeywords)
                          (strongest_areas prof))
           in Inr (jobTitle @ '' with '' @ total_experience prof
                   @ '' full-stack development experience specializing in ''
                   @ join '', '' relevantTech @ ''. ''
                   @ join '' and '' relevantAchievements
                   @ '' across enterprise applications. Expertise in scalable system design, team leadership, and agile development methodologies.'')))"

section \<open>Rendering the blocks\<close>

definition resumeItemLine :: "string \<Rightarrow> string" where
  "resumeItemLine d =
     ''        '' @ [BSL] @ ''resumeItem{''
       @ sanitizeLatex (JStr d)
       @ ''}''"

text \<open>One entry of \<^verbatim>\<open>buildExperienceSection\<close>; \<^verbatim>\<open>exp.description.map\<close> needs the bullets.\<close>

definition buildExperienceEntry :: "scored_position \<Rightarrow> exn + string" where
  "buildExperienceEntry exp =
     (case description exp of
        None \<Rightarrow> Inl (TypeError ''Cannot read properties of undefined (reading 'map')'')
      | Some d \<Rightarrow> Inr (
         ''    '' @ [BSL] @ ''resumeSubheading'' @ [NL] @ ''      {''
         @ sanitizeLatex (company exp)
         @ ''}{''
         @ sanitizeLatex (start_date (duration exp))
         @ '' -- ''
         @ sanitizeLatex (end_date (duration exp))
         @ ''}'' @ [NL] @ ''      {''
         @ sanitizeLatex (JStr (position exp))
         @ ''}{''
         @ sanitizeLatex (location exp)
         @ ''}'' @ [NL] @ ''      '' @ [BSL] @ ''resumeItemListStart'' @ [NL]
         @ join [NL] (map resumeItemLine d)
         @ [NL] @ ''      '' @ [BSL] @ ''resumeItemListEnd'' @ [NL] @ ''      '' @ [BSL] @ ''vspace{-3pt}''))"

definition buildExperienceSection :: "scored_position list \<Rightarrow> exn + string" where
  "buildExperienceSection experiences =
     (case mapE buildExperienceEntry experiences of
        Inl e \<Rightarrow> Inl e
      | Inr entries \<Rightarrow> Inr (join [NL, NL] entries))"

definition buildProjectEntry :: "scored_project \<Rightarrow> string" where
  "buildProjectEntry p =
     [BSL] @ ''resumeProjectHeading'' @ [NL] @ ''    {'' @ [BSL] @ ''textbf{''
       @ sanitizeLatex (JStr (title p))
       @ ''} '' @ [BSL] @ ''href{''
       @ githubUrl p
       @ ''}{['' @ [BSL] @ ''underline{Link to GitHub}]}}{}'' @ [NL] @ ''    '' @ [BSL] @ ''resumeItemListStart'' @ [NL]
       @ join [NL] (map resumeItemLine (bulletPoints p))
       @ [NL] @ ''    '' @ [BSL] @ ''resumeItemListEnd'' @ [NL] @ ''    '' @ [BSL] @ ''vspace{-3pt}''"

definition buildProjectsSection :: "scored_project list \<Rightarrow> string" where
  "buildProjectsSection projects = join [NL, NL] (map buildProjectEntry projects)"

text \<open>\<^verbatim>\<open>extractSkillNames(skillCategories, categoryKey)\<close>\<close>

definition extractSkillNames :: "skill_categories \<Rightarrow> string \<Rightarrow> string list" where
  "extractSkillNames skillCategories categoryKey =
     (case map_of skillCategories categoryKey of
        None \<Rightarrow> []
      | Some category \<Rightarrow> map name (skills category))"

definition skillLine :: "string \<Rightarrow> string list \<Rightarrow> string list" where
  "skillLine label names =
     (if length names > 0
      then [label @ join '', '' (map (\<lambda>sk. sanitizeLatex (JStr sk)) names)]
      else [])"

definition buildSkillsSection :: "skill_categories \<Rightarrow> string" where
  "buildSkillsSection skillCategories =
     (let programmingSkills = extractSkillNames skillCategories ''programming_languages'';
          webSkills = extractSkillNames skillCategories ''web_technologies'';
          cloudSkills = extractSkillNames skillCategories ''cloud_technologies'';
          databaseSkills = extractSkillNames skillCategories ''databases'';
          toolSkills = extractSkillNames skillCategories ''tools_and_systems'';
          specializedSkills = extractSkillNames skillCategories ''specialized_technologies'';
          skillLines =
            skillLine ([BSL] @ ''textbf{Programming Languages:} '') programmingSkills
            @ skillLine ([BSL] @ ''textbf{Frontend '' @ [BSL] @ ''& Backend:} '') webSkills
            @ skillLine ([BSL] @ ''textbf{Databases '' @ [BSL] @ ''& Cloud:} '') (databaseSkills @ cloudSkills)
            @ skillLine ([BSL] @ ''textbf{AI/ML '' @ [BSL] @ ''& Tools:} '') (toolSkills @ specializedSkills)
      in join ('' '' @ [BSL, BSL, NL]) skillLines)"

section \<open>Building the document\<close>

text \<open>
  \<^verbatim>\<open>buildLatexResume\<close>: the four replacements, each on the result of the one before. The
  profile and the customizations it is passed are not read.
\<close>

definition summarySectionOf :: "string \<Rightarrow> string" where
  "summarySectionOf summaryText =
     [BSL] @ ''resumeItem{'' @ [NL] @ ''  ''
       @ sanitizeLatex (JStr summaryText)
       @ [NL] @ ''}''"

definition buildLatexResume ::
  "string \<Rightarrow> string \<Rightarrow> scored_position list \<Rightarrow> skill_categories \<Rightarrow> scored_project list
     \<Rightarrow> exn + string" where
  "buildLatexResume template summaryText experience relevantSkills projects =
     (let latexContent = replaceSummary template (summarySectionOf summaryText)
      in case buildExperienceSection experience of
           Inl e \<Rightarrow> Inl e
         | Inr experienceSection \<Rightarrow>
             (let latexContent = replaceSection latexContent Experience experienceSection;
                  projectsSection = buildProjectsSection projects;
                  latexContent = replaceSection latexContent Projects projectsSection;
                  skillsSection = buildSkillsSection relevantSkills;
                  latexContent = replaceSkillsSection latexContent skillsSection
              in Inr latexContent))"

section \<open>Generating a resume\<close>

text \<open>
  What \<^verbatim>\<open>await Promise.all([...])\<close> over the five loads of the knowledge base gives:
  the five values, or the error of the load that failed.
\<close>

record kb_data =
  kbProfile :: profile
  kbWorkExp :: work_experience
  kbSkills :: skill_categories
  kbProjects :: "project list"
  kbTemplate :: string

text \<open>
  The \<^verbatim>\<open>metadata\<close> object of a successful result; the field \<open>meta_jobTitle\<close> is its
  \<^verbatim>\<open>jobTitle\<close>, and so on.
\<close>

record metadata =
  meta_jobTitle :: string
  meta_generatedAt :: string
  meta_experienceCount :: nat
  meta_projectCount :: nat
  meta_skillCategories :: "string list"
  meta_atsOptimized :: bool
  meta_singlePage :: bool

text \<open>
  The object \<^verbatim>\<open>generateResume\<close> returns: \<^verbatim>\<open>{success: true, latexContent, metadata}\<close> or
  \<^verbatim>\<open>{success: false, error, stack}\<close> (the stack trace is left out).
\<close>

datatype generation =
    Success string metadata
  | Failure string

text \<open>How an \<^verbatim>\<open>async\<close> function ends: its promise resolves to a value or rejects.\<close>

datatype 'a settled =
    Resolved 'a
  | Rejected exn

text \<open>The operations on the world outside the generator, in the order they are started.\<close>

datatype effect =
    LoadProfileSummary
  | LoadWorkExperience
  | LoadSkills
  | LoadAllProjects
  | LoadLatexTemplate
  | WriteTexFile string string
  | ConvertLatexToPdf string string

text \<open>The \<^verbatim>\<open>try\<close> block of \<^verbatim>\<open>generateResume\<close>; \<open>now\<close> is \<^verbatim>\<open>new Date().toISOString()\<close>.\<close>

definition generateResumeBody ::
  "exn + kb_data \<Rightarrow> jsval \<Rightarrow> string \<Rightarrow> string \<Rightarrow> exn + string \<times> metadata" where
  "generateResumeBody kb jobDescription jobTitle now =
     (case kb of
        Inl e \<Rightarrow> Inl e
      | Inr d \<Rightarrow>
     (case generateTailoredSummary (kbProfile d) jobDescription jobTitle of
        Inl e \<Rightarrow> Inl e
      | Inr tailoredSummary \<Rightarrow>
     (case selectRelevantExperience (kbWorkExp d) jobDescription of
        Inl e \<Rightarrow> Inl e
      | Inr relevantExperience \<Rightarrow>
     (case selectRelevantSkills (kbSkills d) jobDescription of
        Inl e \<Rightarrow> Inl e
      | Inr relevantSkills \<Rightarrow>
     (case selectRelevantProjects (kbProjects d) jobDescription of
        Inl e \<Rightarrow> Inl e
      | Inr relevantProjects \<Rightarrow>
     (case buildLatexResume (kbTemplate d) tailoredSummary relevantExperience relevantSkills
             relevantProjects of
        Inl e \<Rightarrow> Inl e
      | Inr latexContent \<Rightarrow>
          Inr (latexContent,
               \<lparr>meta_jobTitle = jobTitle,
                meta_generatedAt = now,
                meta_experienceCount = length relevantExperience,
                meta_projectCount = length relevantProjects,
                meta_skillCategories = map fst relevantSkills,
                meta_atsOptimized = True,
                meta_singlePage = True\<rparr>)))))))"

text \<open>
  \<^verbatim>\<open>generateResume(jobDescription, jobTitle = "Software Engineer", customizations = {})\<close>:
  the five loads are started, then the \<^verbatim>\<open>try\<close> block runs, and the \<^verbatim>\<open>catch\<close> block turns
  whatever it raised into the failure object. The customizations are passed on and never read.
\<close>

definition generateResume ::
  "exn + kb_data \<Rightarrow> string \<Rightarrow> jsval \<Rightarrow> string option \<Rightarrow> effect list \<times> generation settled" where
  "generateResume kb now jobDescription jobTitle =
     ([LoadProfileSummary, LoadWorkExperience, LoadSkills, LoadAllProjects, LoadLatexTemplate],
      (case generateResumeBody kb jobDescription
               (case jobTitle of None \<Rightarrow> ''Software Engineer'' | Some t \<Rightarrow> t) now of
         Inr (latexContent, meta) \<Rightarrow> Resolved (Success latexContent meta)
       | Inl error \<Rightarrow> Resolved (Failure (message error))))"

section \<open>Tool handlers\<close>

text \<open>\<^verbatim>\<open>!v\<close>: the falsy values.\<close>

definition falsy :: "jsval \<Rightarrow> bool" where
  "falsy v = (v = JUndefined \<or> v = JNull \<or> v = JBool False \<or> v = JNum 0 \<or> v = JStr [])"

text \<open>The data the text of a tool response is formatted from.\<close>

datatype response =
    ResumeGenerated metadata string
  | ResumeConverted metadata string string

text \<open>
  \<^verbatim>\<open>path.join(CONFIG.outputPath, `${fileName}.tex`)\<close>, written relative to the directory above
  the one of the server script (\<^verbatim>\<open>CONFIG.outputPath\<close> is \<^verbatim>\<open>path.join(__dirname, '../output')\<close>),
  for a file name that is a plain name.
\<close>

definition texPathOf :: "string \<Rightarrow> string" where
  "texPathOf fileName = ''output/'' @ fileName @ ''.tex''"

text \<open>
  \<^verbatim>\<open>handleGenerateResume(args)\<close>, with the fields of \<open>args\<close> as arguments. The world is the
  outcome \<open>kb\<close> of the loads, the time \<open>now\<close>, and the outcome \<open>written\<close> of creating the
  output directory and writing the file. The result is the list of effects started and the
  response, or the error the handler throws.
\<close>

definition handleGenerateResume ::
  "exn + kb_data \<Rightarrow> string \<Rightarrow> exn + unit \<Rightarrow> jsval \<Rightarrow> string option \<Rightarrow> string option
     \<Rightarrow> effect list \<times> (exn + response)" where
  "handleGenerateResume kb now written jobDescription jobTitle fileName =
     (if falsy jobDescription
      then ([], Inl (Error ''Job description is required and cannot be empty''))
      else case jobDescription of
        JStr s \<Rightarrow>
          if length (trim s) = 0
          then ([], Inl (Error ''Job description is required and cannot be empty''))
          else
            (let jt = (case jobTitle of None \<Rightarrow> ''Software Engineer'' | Some t \<Rightarrow> t);
                 fn = (case fileName of None \<Rightarrow> ''tailored_resume'' | Some f \<Rightarrow> f);
                 (effects, result) = generateResume kb now jobDescription (Some jt)
             in case result of
                  Rejected e \<Rightarrow> (effects, Inl e)
                | Resolved (Failure msg) \<Rightarrow>
                    (effects, Inl (Error (''Resume generation failed: '' @ msg)))
                | Resolved (Success latexContent meta) \<Rightarrow>
                    (effects @ [WriteTexFile (texPathOf fn) latexContent],
                     case written of
                       Inl e \<Rightarrow> Inl e
                     | Inr u \<Rightarrow> Inr (ResumeGenerated meta (texPathOf fn))))
      | _ \<Rightarrow> ([], Inl (TypeError ''jobDescription.trim is not a function'')))"

text \<open>
  \<^verbatim>\<open>handleGenerateAndConvertResume(args)\<close>; \<open>converted\<close> is what \<^verbatim>\<open>convertLatexToPdf\<close>
  returns, the error message of a failed conversion or the paths of the two files.
\<close>

definition handleGenerateAndConvertResume ::
  "exn + kb_data \<Rightarrow> string \<Rightarrow> string + string \<times> string \<Rightarrow> jsval \<Rightarrow> string option
     \<Rightarrow> string option \<Rightarrow> effect list \<times> (exn + response)" where
  "handleGenerateAndConvertResume kb now converted jobDescription jobTitle fileName =
     (let jt = (case jobTitle of None \<Rightarrow> ''Software Engineer'' | Some t \<Rightarrow> t);
          fn = (case fileName of None \<Rightarrow> ''tailored_resume'' | Some f \<Rightarrow> f);
          (effects, generateResult) = generateResume kb now jobDescription (Some jt)
      in case generateResult of
           Rejected e \<Rightarrow> (effects, Inl e)
         | Resolved (Failure msg) \<Rightarrow>
             (effects, Inl (Error (''Resume generation failed: '' @ msg)))
         | Resolved (Success latexContent meta) \<Rightarrow>
             (effects @ [ConvertLatexToPdf latexContent fn],
              case converted of
                Inl msg \<Rightarrow> Inl (Error (''PDF conversion failed: '' @ msg))
              | Inr (pdfPath, texPath) \<Rightarrow> Inr (ResumeConverted meta pdfPath texPath)))"

section \<open>A sample knowledge base\<close>

definition sampleKb :: kb_data where
  "sampleKb =
     \<lparr>kbProfile = \<lparr>total_experience = ''2+ years'', key_achievements = [''Shipped a CRM''],
                   strongest_areas = [''Node.js backends'']\<rparr>,
      kbWorkExp = sampleWorkExp,
      kbSkills = [(''programming_languages'',
                   \<lparr>skills = [\<lparr>name = ''C#'', proficiency = JStr ''Advanced'', skill_context = []\<rparr>]\<rparr>)],
      kbProjects = [sampleProject],
      kbTemplate = ''% a template without markers''\<rparr>"

section \<open>A template as a frame around four inner spans\<close>

text \<open>
  The texts of a template outside the four spans that \<^verbatim>\<open>buildLatexResume\<close> rewrites: the
  text before the summary command; the text from its closing brace to the Experience marker;
  the Experience marker up to and including \<^verbatim>\<open>\resumeSubHeadingListStart\<close>; likewise for the
  Projects and Skills regions; and the text after the \<^verbatim>\<open>\vspace\<close> line that ends the Skills
  region. Only the statements about the frame use these.
\<close>

record frame =
  beforeSummary :: string
  afterSummary :: string
  experienceHead :: string
  afterExperience :: string
  projectsHead :: string
  afterProjects :: string
  skillsHead :: string
  afterSkills :: string

definition fillFrame :: "frame \<Rightarrow> string \<Rightarrow> string \<Rightarrow> string \<Rightarrow> string \<Rightarrow> string" where
  "fillFrame fr x1 x2 x3 x4 =
     beforeSummary fr @ resumeItemOpen @ x1 @ ''}'' @ afterSummary fr
     @ experienceHead fr @ x2 @ listEnd @ afterExperience fr
     @ projectsHead fr @ x3 @ listEnd @ afterProjects fr
     @ skillsHead fr @ x4 @ vspaceLine @ afterSkills fr"

text \<open>
  The template \<open>fillFrame fr s1 s2 s3 s4\<close> contains all named regions, one after the other:
  each of the four patterns, run on the template, finds its span at the place the frame gives it.
\<close>

definition templateRegions :: "frame \<Rightarrow> string \<Rightarrow> string \<Rightarrow> string \<Rightarrow> string \<Rightarrow> bool" where
  "templateRegions fr s1 s2 s3 s4 =
     (let t = fillFrame fr s1 s2 s3 s4;
          u1 = beforeSummary fr @ resumeItemOpen @ s1 @ ''}'' @ afterSummary fr;
          u2 = u1 @ experienceHead fr @ s2 @ listEnd @ afterExperience fr;
          u3 = u2 @ projectsHead fr @ s3 @ listEnd @ afterProjects fr
      in map_option (\<lambda>(pre, arg, post). (pre, arg)) (matchSummary t) = Some (beforeSummary fr, s1)
         \<and> map_option (\<lambda>r. (textBefore r, group1 r, group2 r)) (matchSection Experience t)
             = Some (u1, experienceHead fr, s2)
         \<and> map_option (\<lambda>r. (textBefore r, group1 r, group2 r)) (matchSection Projects t)
             = Some (u2, projectsHead fr, s3)
         \<and> map_option (\<lambda>r. (textBefore r, group1 r, group2 r)) (matchSkills t)
             = Some (u3, skillsHead fr, s4))"

section \<open>A sample template\<close>

definition sampleFrame :: frame where
  "sampleFrame =
     \<lparr>beforeSummary = [BSL] @ ''documentclass{article}'' @ [NL],
      afterSummary = [NL],
      experienceHead = ''%-----------EXPERIENCE-----------'' @ [NL]
                       @ [BSL] @ ''section{Experience}'' @ [NL]
                       @ [BSL] @ ''resumeSubHeadingListStart'',
      afterExperience = [NL],
      projectsHead = ''%-----------PROJECTS-----------'' @ [NL]
                     @ [BSL] @ ''section{Projects}'' @ [NL]
                     @ [BSL] @ ''resumeSubHeadingListStart'',
      afterProjects = [NL],
      skillsHead = ''%------SKILLS SECTION-------'' @ [NL, BSL] @ ''section{Skills}'' @ [NL, BSL] @ ''small'' @ [NL],
      afterSkills = [NL, BSL] @ ''end{document}'' @ [NL]\<rparr>"

definition sampleTemplate :: string where
  "sampleTemplate =
     fillFrame sampleFrame ''Software Engineer with 2 years of experience''
       ([NL] @ ''OLD EXPERIENCE'' @ [NL]) ([NL] @ ''OLD PROJECTS'' @ [NL]) ''OLD SKILLS''"

definition sampleExperience :: "scored_position list" where
  "sampleExperience =
     [(scorePosition [''node.js''] samplePosition)
        \<lparr>description := Some [''Built Node JS services'', ''Achieved lower costs'',
                              ''Achieved faster releases'']\<rparr>]"

definition sampleSkills :: skill_categories where
  "sampleSkills =
     [(''programming_languages'',
       \<lparr>skills = [\<lparr>name = ''C#'', proficiency = JStr ''Advanced'', skill_context = []\<rparr>]\<rparr>)]"

text \<open>A summary text that holds the start marker of the Experience region.\<close>

definition markerSummary :: string where
  "markerSummary = ''%-----------EXPERIENCE-----------'' @ [BSL] @ ''resumeSubHeadingListStart''"

text \<open>The block that \<^verbatim>\<open>buildExperienceSection\<close> renders for the sample experience.\<close>

definition sampleExperienceSection :: string where
  "sampleExperienceSection =
     ''    '' @ [BSL] @ ''resumeSubheading'' @ [NL]
     @ ''      {Acme}{June 2024 -- Present}'' @ [NL]
     @ ''      {Analyst}{New York}'' @ [NL]
     @ ''      '' @ [BSL] @ ''resumeItemListStart'' @ [NL]
     @ ''        '' @ [BSL] @ ''resumeItem{Built Node JS services}'' @ [NL]
     @ ''        '' @ [BSL] @ ''resumeItem{Achieved lower costs}'' @ [NL]
     @ ''        '' @ [BSL] @ ''resumeItem{Achieved faster releases}'' @ [NL]
     @ ''      '' @ [BSL] @ ''resumeItemListEnd'' @ [NL]
     @ ''      '' @ [BSL] @ ''vspace{-3pt}''"

section \<open>Properties of the sanitizer\<close>

lemma replaceChar_Nil [simp]: "replaceChar c r [] = []"
  by (simp add: replaceChar_def)

lemma replaceChar_append: "replaceChar c r (xs @ ys) = replaceChar c r xs @ replaceChar c r ys"
  by (simp add: replaceChar_def)

lemma replaceChar_concat_map:
  "replaceChar c r (concat (map f s)) = concat (map (\<lambda>x. replaceChar c r (f x)) s)"
  by (induction s) (simp_all add: replaceChar_append)

lemma replaceChar_as_concat: "replaceChar c r s = concat (map (\<lambda>x. replaceChar c r [x]) s)"
  by (simp add: replaceChar_def)

lemma escapeChar_chain:
  "replaceChar (CHR ''}'') [BSL, CHR ''}'']
    (replaceChar (CHR ''{'') [BSL, CHR ''{'']
    (replaceChar (CHR ''_'') [BSL, CHR ''_'']
    (replaceChar (CHR ''~'') (BSL # ''~{}'')
    (replaceChar (CHR ''^'') (BSL # ''^{}'')
    (replaceChar (CHR ''#'') [BSL, CHR ''#'']
    (replaceChar (CHR ''$'') [BSL, CHR ''$'']
    (replaceChar (CHR ''%'') [BSL, CHR ''%'']
    (replaceChar (CHR ''&'') [BSL, CHR ''&''] [x])))))))) = escapeChar x"
  by (simp add: replaceChar_def escapeChar_def)

lemma sanitizeLatex_chars: "sanitizeLatex (JStr s) = concat (map escapeChar s)"
proof (cases "s = []")
  case True
  then show ?thesis by (simp add: sanitizeLatex_def)
next
  case False
  have "replaceChar (CHR ''}'') [BSL, CHR ''}'']
    (replaceChar (CHR ''{'') [BSL, CHR ''{'']
    (replaceChar (CHR ''_'') [BSL, CHR ''_'']
    (replaceChar (CHR ''~'') (BSL # ''~{}'')
    (replaceChar (CHR ''^'') (BSL # ''^{}'')
    (replaceChar (CHR ''#'') [BSL, CHR ''#'']
    (replaceChar (CHR ''$'') [BSL, CHR ''$'']
    (replaceChar (CHR ''%'') [BSL, CHR ''%'']
    (replaceChar (CHR ''&'') [BSL, CHR ''&''] s)))))))) = concat (map escapeChar s)"
    apply (subst replaceChar_as_concat [of "CHR ''&''"])
    apply (simp only: replaceChar_concat_map)
    apply (simp only: escapeChar_chain)
    done
  with False show ?thesis by (simp add: sanitizeLatex_def)
qed

text \<open>
  Claim C8, at the input \<^verbatim>\<open>"^"\<close>: the caret is first rewritten to \<^verbatim>\<open>\^{}\<close>, and the two
  brace replacements that run afterwards rewrite the braces of that escape form, so the
  output is \<^verbatim>\<open>\^\{\}\<close> and not the escape form \<^verbatim>\<open>\^{}\<close> of the caret.
\<close>

theorem sanitizeLatex_caret_braces_escaped:
  "sanitizeLatex (JStr ''^'') = [BSL, CHR ''^'', BSL, CHR ''{'', BSL, CHR ''}'']
   \<and> sanitizeLatex (JStr ''^'') \<noteq> BSL # ''^{}''
   \<and> sanitizeLatex (JStr ''~'') = [BSL, CHR ''~'', BSL, CHR ''{'', BSL, CHR ''}'']"
  by (simp add: sanitizeLatex_def replaceChar_def)

text \<open>
  Claim C10: for every input that is \<^verbatim>\<open>null\<close>, \<^verbatim>\<open>undefined\<close> or not a string,
  \<^verbatim>\<open>sanitizeLatex\<close> returns the empty string; the model has no error value to return, as the
  guard of the source runs before any method is called on the input.
\<close>

theorem sanitizeLatex_non_string:
  "(\<forall>s. text \<noteq> JStr s) \<Longrightarrow> sanitizeLatex text = []"
  by (cases "text") (simp_all add: sanitizeLatex_def)

theorem sanitizeLatex_non_string_witness:
  "(\<forall>s. JNull \<noteq> JStr s) \<and> sanitizeLatex JNull = []
   \<and> (\<forall>s. JNum 7 \<noteq> JStr s) \<and> sanitizeLatex (JNum 7) = []"
  using sanitizeLatex_non_string [of JNull] sanitizeLatex_non_string [of "JNum 7"] by simp

section \<open>Properties of experience selection\<close>

lemma fillBullets_None: "fillBullets bps dlen None = bps"
  by simp

lemma fillBullets_Some:
  "length bps \<le> 3 \<Longrightarrow>
   fillBullets bps dlen (Some as) =
     bps @ map (\<lambda>i. ''Achieved '' @ achievementOr as (int i - int dlen)) [length bps..<3]"
proof (induction bps dlen "Some as" rule: fillBullets.induct)
  case (1 bps dlen)
  show ?case
  proof (cases "length bps < 3")
    case True
    then have "length (bps @ [''Achieved '' @ achievementOr as (int (length bps) - int dlen)]) \<le> 3"
      by simp
    from "1.hyps" [OF refl True this] True show ?thesis
      by (subst fillBullets.simps) (simp add: upt_conv_Cons)
  next
    case False
    with "1.prems" have "length bps = 3" by simp
    then show ?thesis by (subst fillBullets.simps) simp
  qed
qed

lemma fillBullets_length:
  "length bps \<le> 3 \<Longrightarrow> length (fillBullets bps dlen (Some as)) = 3"
proof -
  assume le: "length bps \<le> 3"
  have "length (fillBullets bps dlen (Some as)) = length bps + (3 - length bps)"
    by (simp only: fillBullets_Some [OF le] length_append length_map length_upt)
  with le show ?thesis by simp
qed

lemma mapE_Inr: "mapE f xs = Inr ys \<longleftrightarrow> list_all2 (\<lambda>x y. f x = Inr y) xs ys"
proof (induction xs arbitrary: ys)
  case Nil
  then show ?case by auto
next
  case (Cons x xs)
  show ?case
    by (cases ys) (auto split: sum.splits simp: Cons.IH [symmetric])
qed

lemma enforceBullets_three:
  assumes "enforceBullets pos = Inr r" and "description pos = Some d"
    and "3 \<le> length d + length (achievementList pos)"
  shows "\<exists>bs. description r = Some bs \<and> length bs = 3"
proof (cases "achievements pos")
  case None
  with assms(3) have "3 \<le> length d" by (simp add: achievementList_def)
  with assms(1,2) None show ?thesis
    by (auto simp: enforceBullets_def Let_def)
next
  case (Some as)
  have "length (fillBullets (take 3 d) (length d) (Some as)) = 3"
    by (rule fillBullets_length) simp
  with assms(1,2) Some show ?thesis
    by (auto simp: enforceBullets_def Let_def)
qed

lemma backfill_reindex:
  assumes "length d < 3"
  shows "take 3 (fillBullets (take 3 d) (length d) (Some as)) =
         d @ map (\<lambda>i. ''Achieved '' @ (if i < length as \<and> as ! i \<noteq> [] then as ! i else fillerText))
               [0..<3 - length d]"
proof -
  from assms have t: "take 3 d = d" by simp
  have le: "length d \<le> 3" using assms by simp
  have "[length d..<3] = map (\<lambda>i. i + length d) [0..<3 - length d]"
    using assms by (simp only: map_add_upt) simp
  then have "map (\<lambda>i. ''Achieved '' @ achievementOr as (int i - int (length d))) [length d..<3]
      = map (\<lambda>i. ''Achieved '' @ (if i < length as \<and> as ! i \<noteq> [] then as ! i else fillerText))
          [0..<3 - length d]"
    by (simp add: achievementOr_def o_def)
  then have "fillBullets d (length d) (Some as) =
         d @ map (\<lambda>i. ''Achieved '' @ (if i < length as \<and> as ! i \<noteq> [] then as ! i else fillerText))
               [0..<3 - length d]"
    by (simp only: fillBullets_Some [OF le])
  moreover have "length (fillBullets d (length d) (Some as)) = 3"
    by (rule fillBullets_length [OF le])
  ultimately show ?thesis by (simp add: t)
qed

lemma enforceBullets_backfill:
  assumes "enforceBullets pos = Inr r" and "description pos = Some d" and "length d < 3"
  shows "r = pos\<lparr>description :=
                 Some (case achievements pos of
                         None \<Rightarrow> d
                       | Some as \<Rightarrow>
                           d @ map (\<lambda>i. ''Achieved '' @
                                     (if i < length as \<and> as ! i \<noteq> [] then as ! i else fillerText))
                                 [0..<3 - length d])\<rparr>"
proof (cases "achievements pos")
  case None
  with assms show ?thesis by (auto simp: enforceBullets_def Let_def)
next
  case (Some as)
  with assms(1,2) backfill_reindex [OF assms(3), of as] show ?thesis
    by (auto simp: enforceBullets_def Let_def)
qed

lemma mapE_total: "(\<forall>x\<in>set xs. \<exists>y. f x = Inr y) \<Longrightarrow> \<exists>ys. mapE f xs = Inr ys"
proof (induction xs)
  case Nil
  then show ?case by simp
next
  case (Cons x xs)
  then obtain y ys where "f x = Inr y" "mapE f xs = Inr ys" by auto
  then show ?case by simp
qed

lemma enforceBullets_total: "description pos \<noteq> None \<Longrightarrow> \<exists>r. enforceBullets pos = Inr r"
  by (auto simp: enforceBullets_def Let_def)

lemma selectRelevantExperience_total:
  assumes "extractJobKeywords jd = Inr kws"
    and "list_all (\<lambda>p. description p \<noteq> None) (topPositions workExp kws)"
  shows "\<exists>res. selectRelevantExperience workExp jd = Inr res
           \<and> list_all2 (\<lambda>p r. enforceBullets p = Inr r) (topPositions workExp kws) res"
proof -
  from assms(2) have "\<forall>p\<in>set (topPositions workExp kws). \<exists>r. enforceBullets p = Inr r"
    by (auto simp: list_all_iff intro: enforceBullets_total)
  then obtain res where "mapE enforceBullets (topPositions workExp kws) = Inr res"
    using mapE_total [of "topPositions workExp kws" enforceBullets] by blast
  with assms(1) show ?thesis by (auto simp: selectRelevantExperience_def mapE_Inr)
qed

lemma enforceBullets_added:
  assumes e: "enforceBullets pos = Inr r" and d: "description pos = Some d" and l: "length d < 3"
  shows "case achievements pos of
           None \<Rightarrow> r = pos\<lparr>description := Some d\<rparr>
         | Some as \<Rightarrow>
             (\<exists>added. r = pos\<lparr>description := Some (d @ added)\<rparr> \<and> length (d @ added) = 3 \<and>
                (\<forall>i < length added. i < length as \<longrightarrow> as ! i \<noteq> [] \<longrightarrow>
                   added ! i = ''Achieved '' @ as ! i))"
proof (cases "achievements pos")
  case None
  with enforceBullets_backfill [OF e d l] show ?thesis by simp
next
  case (Some as)
  define added where "added = map (\<lambda>i. ''Achieved '' @
                         (if i < length as \<and> as ! i \<noteq> [] then as ! i else fillerText))
                       [0..<3 - length d]"
  from enforceBullets_backfill [OF e d l] Some
  have "r = pos\<lparr>description := Some (d @ added)\<rparr>" by (simp add: added_def)
  moreover have "length (d @ added) = 3" using l by (simp add: added_def)
  moreover have "\<forall>i < length added. i < length as \<longrightarrow> as ! i \<noteq> [] \<longrightarrow>
                   added ! i = ''Achieved '' @ as ! i"
    by (simp add: added_def)
  ultimately show ?thesis using Some by auto
qed

text \<open>
  Claim C2: when the job description is a string and the selected positions have description
  lists, experience selection returns the selected positions in order, and every position
  whose description list and achievement list together hold at least three strings comes
  back with exactly three bullets in its description field.
\<close>

theorem selectRelevantExperience_three_bullets:
  assumes "extractJobKeywords jd = Inr kws"
    and "list_all (\<lambda>p. description p \<noteq> None) (topPositions workExp kws)"
  shows "\<exists>res. selectRelevantExperience workExp jd = Inr res \<and>
           list_all2
             (\<lambda>p r. \<forall>d. description p = Some d \<longrightarrow> 3 \<le> length d + length (achievementList p)
                      \<longrightarrow> (\<exists>bs. description r = Some bs \<and> length bs = 3))
             (topPositions workExp kws) res"
proof -
  from selectRelevantExperience_total [OF assms] obtain res
    where r: "selectRelevantExperience workExp jd = Inr res"
      and l: "list_all2 (\<lambda>p r. enforceBullets p = Inr r) (topPositions workExp kws) res" by blast
  from l have "list_all2
             (\<lambda>p r. \<forall>d. description p = Some d \<longrightarrow> 3 \<le> length d + length (achievementList p)
                      \<longrightarrow> (\<exists>bs. description r = Some bs \<and> length bs = 3))
             (topPositions workExp kws) res"
    by (rule list_all2_mono) (blast intro: enforceBullets_three)
  with r show ?thesis by blast
qed

theorem selectRelevantExperience_three_bullets_witness:
  "extractJobKeywords sampleJobDescription = Inr [''node.js'']
   \<and> list_all (\<lambda>p. description p \<noteq> None) (topPositions sampleWorkExp [''node.js''])
   \<and> map (\<lambda>p. length (the (description p)) + length (achievementList p))
         (topPositions sampleWorkExp [''node.js'']) = [3, 2]
   \<and> (\<exists>res. selectRelevantExperience sampleWorkExp sampleJobDescription = Inr res \<and>
           list_all2
             (\<lambda>p r. \<forall>d. description p = Some d \<longrightarrow> 3 \<le> length d + length (achievementList p)
                      \<longrightarrow> (\<exists>bs. description r = Some bs \<and> length bs = 3))
             (topPositions sampleWorkExp [''node.js'']) res)"
proof -
  have a: "extractJobKeywords sampleJobDescription = Inr [''node.js'']"
    by code_simp
  have b: "list_all (\<lambda>p. description p \<noteq> None) (topPositions sampleWorkExp [''node.js''])"
    by code_simp
  have c: "map (\<lambda>p. length (the (description p)) + length (achievementList p))
         (topPositions sampleWorkExp [''node.js'']) = [3, 2]"
    by code_simp
  from selectRelevantExperience_three_bullets [OF a b] a b c show ?thesis by blast
qed

text \<open>
  Claim C3, as the code has it. When the job description is a string and the selected
  positions have description lists, experience selection returns without error, and for a
  selected position with fewer than three description bullets: without an achievements field
  the bullets stay as they are; with an achievements field bullets are added after the
  description bullets until there are exactly three, and the \<open>i\<close>-th added bullet is
  \<^verbatim>\<open>Achieved\<close> followed by the \<open>i\<close>-th achievement wherever that achievement exists and is not
  empty. The index into the achievements is never negative. Nothing is said here about an
  added bullet for which no achievement is left.
\<close>

theorem selectRelevantExperience_backfill:
  assumes "extractJobKeywords jd = Inr kws"
    and "list_all (\<lambda>p. description p \<noteq> None) (topPositions workExp kws)"
  shows "\<exists>res. selectRelevantExperience workExp jd = Inr res \<and>
           list_all2
             (\<lambda>p r. \<forall>d. description p = Some d \<longrightarrow> length d < 3 \<longrightarrow>
                (case achievements p of
                   None \<Rightarrow> r = p\<lparr>description := Some d\<rparr>
                 | Some as \<Rightarrow>
                     (\<exists>added. r = p\<lparr>description := Some (d @ added)\<rparr> \<and> length (d @ added) = 3 \<and>
                        (\<forall>i < length added. i < length as \<longrightarrow> as ! i \<noteq> [] \<longrightarrow>
                           added ! i = ''Achieved '' @ as ! i))))
             (topPositions workExp kws) res"
proof -
  from selectRelevantExperience_total [OF assms] obtain res
    where r: "selectRelevantExperience workExp jd = Inr res"
      and l: "list_all2 (\<lambda>p r. enforceBullets p = Inr r) (topPositions workExp kws) res" by blast
  from l have "list_all2
             (\<lambda>p r. \<forall>d. description p = Some d \<longrightarrow> length d < 3 \<longrightarrow>
                (case achievements p of
                   None \<Rightarrow> r = p\<lparr>description := Some d\<rparr>
                 | Some as \<Rightarrow>
                     (\<exists>added. r = p\<lparr>description := Some (d @ added)\<rparr> \<and> length (d @ added) = 3 \<and>
                        (\<forall>i < length added. i < length as \<longrightarrow> as ! i \<noteq> [] \<longrightarrow>
                           added ! i = ''Achieved '' @ as ! i))))
             (topPositions workExp kws) res"
    by (rule list_all2_mono) (use enforceBullets_added in blast)
  with r show ?thesis by blast
qed

theorem selectRelevantExperience_backfill_witness:
  "extractJobKeywords sampleJobDescription = Inr [''node.js'']
   \<and> list_all (\<lambda>p. description p \<noteq> None) (topPositions sampleWorkExp [''node.js''])
   \<and> (\<exists>res. selectRelevantExperience sampleWorkExp sampleJobDescription = Inr res \<and>
           list_all2
             (\<lambda>p r. \<forall>d. description p = Some d \<longrightarrow> length d < 3 \<longrightarrow>
                (case achievements p of
                   None \<Rightarrow> r = p\<lparr>description := Some d\<rparr>
                 | Some as \<Rightarrow>
                     (\<exists>added. r = p\<lparr>description := Some (d @ added)\<rparr> \<and> length (d @ added) = 3 \<and>
                        (\<forall>i < length added. i < length as \<longrightarrow> as ! i \<noteq> [] \<longrightarrow>
                           added ! i = ''Achieved '' @ as ! i))))
             (topPositions sampleWorkExp [''node.js'']) res)"
proof -
  have a: "extractJobKeywords sampleJobDescription = Inr [''node.js'']"
    by code_simp
  have b: "list_all (\<lambda>p. description p \<noteq> None) (topPositions sampleWorkExp [''node.js''])"
    by code_simp
  from selectRelevantExperience_backfill [OF a b] a b show ?thesis by blast
qed

text \<open>
  Claim C3 as stated fails on the second sample position, which has one description bullet
  and one achievement: the achievements are used up after the second bullet, and the result
  still has three bullets, the third being a text that is neither a description nor an
  achievement of the position.
\<close>

theorem selectRelevantExperience_filler_counterexample:
  "selectRelevantExperience sampleWorkExp sampleJobDescription
     = Inr [(scorePosition [''node.js''] samplePosition)
              \<lparr>description := Some [''Built Node JS services'', ''Achieved lower costs'',
                                    ''Achieved faster releases'']\<rparr>,
            (scorePosition [''node.js''] sparsePosition)
              \<lparr>description := Some [''Built Node JS services'', ''Achieved lower costs'',
                                    ''Achieved significant performance improvements'']\<rparr>]
   \<and> description sparsePosition = Some [''Built Node JS services'']
   \<and> achievements sparsePosition = Some [''lower costs'']
   \<and> \<not> length [''Built Node JS services'', ''Achieved lower costs'',
                 ''Achieved significant performance improvements''] < 3
   \<and> ''Achieved significant performance improvements''
        \<notin> set [''Built Node JS services''] \<union> (\<lambda>a. ''Achieved '' @ a) ` set [''lower costs'']"
  by code_simp

section \<open>Properties of relevance scoring\<close>

text \<open>Every keyword of the vocabulary is a pattern of literal characters and dots.\<close>

lemma techKeywords_plain:
  "list_all (\<lambda>k. list_all (\<lambda>c. c \<notin> set ''^$*+?()[]{}|'' \<and> c \<noteq> BSL) k) techKeywords"
  by code_simp

lemma foldl_score:
  "foldl (\<lambda>score keyword. score + f keyword * 2) a ks = a + (\<Sum>k\<leftarrow>ks. 2 * f k)"
  for f :: "string \<Rightarrow> nat"
  by (induction ks arbitrary: a) simp_all

text \<open>The score of the code is a sum over the keywords and the two bonuses.\<close>

lemma calculateRelevanceScore_sum:
  "calculateRelevanceScore pos jobKeywords =
     (\<Sum>keyword\<leftarrow>jobKeywords. 2 * countMatches (toLowerCase keyword) (searchTextOf pos))
     + (if status pos = JStr ''Current'' then 5 else 0)
     + (if includes_js (toLowerCase (position pos)) ''engineer'' \<or>
           includes_js (toLowerCase (position pos)) ''developer'' then 3 else 0)"
  by (simp add: calculateRelevanceScore_def Let_def foldl_score)

text \<open>
  Claim C6, at the sample position and the keyword \<^verbatim>\<open>node.js\<close> (the keyword extracted from
  the sample job description): the search text holds \<^verbatim>\<open>node js\<close> and no occurrence of the
  substring \<^verbatim>\<open>node.js\<close>, the position is neither current nor an engineer or developer, so
  the specified score is 0; the code compiles the keyword as a regular expression, in which
  the dot matches the space, and returns 2.
\<close>

theorem calculateRelevanceScore_dot_wildcard:
  "extractJobKeywords sampleJobDescription = Inr [''node.js'']
   \<and> searchTextOf samplePosition = ''built node js services  lower costs faster releases''
   \<and> calculateRelevanceScore samplePosition [''node.js''] = 2
   \<and> specRelevanceScore samplePosition [''node.js''] = 0"
  by code_simp

section \<open>Properties of project selection\<close>







lemma stripStars_only_stars: "set t \<subseteq> {CHR ''*''} \<Longrightarrow> stripStars t = []"
proof (cases t)
  case Nil
  then show ?thesis by (simp add: stripStars_def)
next
  case (Cons c cs)
  assume a: "set t \<subseteq> {CHR ''*''}"
  then have d: "dropWhile (\<lambda>x. x = CHR ''*'') t = []" by (auto simp: dropWhile_eq_Nil_conv)
  from a Cons have c: "c = CHR ''*''" by simp
  have "stripStars t = dropWhile isWhiteSpace (dropWhile (\<lambda>x. x = CHR ''*'') t)"
    unfolding stripStars_def Cons c by simp
  then show ?thesis unfolding d by simp
qed




text \<open>
  The condition on the two picked fragments is as narrow as the code allows: whenever one of
  them consists of asterisks only, fewer than two bullets come back.
\<close>

lemma generateProjectBulletPoints_fewer:
  assumes "summaryOrRaw p = Some s"
    and "\<not> list_all (\<lambda>f. \<not> set (trim f) \<subseteq> {CHR ''*''})
           (if 2 \<le> length (filter isTechnical (sentencesOf s))
            then take 2 (filter isTechnical (sentencesOf s))
            else take 2 (sentencesOf s))"
  shows "\<exists>bs. generateProjectBulletPoints p = Inr bs \<and> length bs < 2"
proof -
  define chosen where
    "chosen = (if length (filter isTechnical (sentencesOf s)) \<ge> 2
               then take 2 (filter isTechnical (sentencesOf s))
               else take 2 (sentencesOf s))"
  define cleaned where "cleaned = map (\<lambda>bp. stripStars (trim bp)) chosen"
  have len: "length chosen \<le> 2" by (simp add: chosen_def)
  from assms(2) obtain f where f: "f \<in> set chosen" "set (trim f) \<subseteq> {CHR ''*''}"
    unfolding chosen_def [symmetric] by (auto simp: list_all_iff)
  from f(2) have "stripStars (trim f) = []" by (rule stripStars_only_stars)
  with f(1) have "[] \<in> set cleaned" unfolding cleaned_def by force
  then have "length (filter (\<lambda>bp. length bp > 0) cleaned) < length cleaned"
    by (intro length_filter_less [of "[]"]) simp_all
  also have "\<dots> \<le> 2" using len by (simp add: cleaned_def)
  finally have l: "length (take 2 (filter (\<lambda>bp. length bp > 0) cleaned)) < 2" by simp
  have res: "generateProjectBulletPoints p = Inr (take 2 (filter (\<lambda>bp. length bp > 0) cleaned))"
    using assms(1)
    by (simp only: generateProjectBulletPoints_def Let_def cleaned_def chosen_def option.case)
  with l show ?thesis by blast
qed

section \<open>Properties of template splicing\<close>

lemma findFirst_Some: "findFirst n s = Some (a, b) \<Longrightarrow> s = a @ n @ b"
proof (induction s arbitrary: a)
  case Nil
  then show ?case by (auto split: if_splits)
next
  case (Cons c cs)
  show ?case
  proof (cases "prefix n (c # cs)")
    case True
    with Cons.prems have "a = []" "b = drop (length n) (c # cs)" by auto
    moreover from True have "c # cs = n @ drop (length n) (c # cs)"
      by (metis append_eq_conv_conj prefixE)
    ultimately show ?thesis by simp
  next
    case False
    with Cons.prems obtain a' where "findFirst n cs = Some (a', b)" "a = c # a'"
      by (auto split: if_splits)
    with Cons.IH show ?thesis by auto
  qed
qed

lemma findFirst_None: "findFirst n s = None \<longleftrightarrow> \<not> sublist n s"
proof (induction s)
  case Nil
  then show ?case by auto
next
  case (Cons c cs)
  show ?case
  proof (cases "prefix n (c # cs)")
    case True
    then show ?thesis by (auto dest: prefix_imp_sublist)
  next
    case False
    then have "n \<noteq> []" by auto
    with False Cons show ?thesis
      by (cases n) (auto simp: sublist_Cons_right)
  qed
qed

lemma sublist_mid: "sublist n m \<Longrightarrow> sublist n (a @ m @ b)"
proof -
  assume "sublist n m"
  then obtain ps ss where "m = ps @ n @ ss" by (auto simp: sublist_def)
  then have "a @ m @ b = (a @ ps) @ n @ (ss @ b)" by simp
  then show ?thesis unfolding sublist_def by blast
qed

lemma sublist_appendI2: "sublist n r \<Longrightarrow> sublist n (a @ m @ r)"
  using sublist_mid [of n r "a @ m" "[]"] by simp

lemma matchSection_None:
  assumes "\<not> sublist (sectionStart sec) c \<or> \<not> sublist listStart c \<or> \<not> sublist listEnd c"
  shows "matchSection sec c = None"
proof (cases "findFirst (sectionStart sec) c")
  case None
  then show ?thesis by (simp add: matchSection_def)
next
  case (Some p)
  obtain pre r1 where p: "p = (pre, r1)" by (cases p)
  from Some p have c: "c = pre @ sectionStart sec @ r1" by (auto dest: findFirst_Some)
  then have s0: "sublist (sectionStart sec) c" by (simp add: sublist_appendI)
  show ?thesis
  proof (cases "findFirst listStart r1")
    case None
    with Some p show ?thesis by (simp add: matchSection_def)
  next
    case (Some q)
    obtain a r2 where q: "q = (a, r2)" by (cases q)
    from Some q have r1: "r1 = a @ listStart @ r2" by (auto dest: findFirst_Some)
    have "sublist listStart r1" unfolding r1 by (rule sublist_appendI)
    then have s1: "sublist listStart c" unfolding c by (rule sublist_appendI2)
    have "\<not> sublist listEnd r2"
    proof
      assume "sublist listEnd r2"
      then have "sublist listEnd r1" unfolding r1 by (rule sublist_appendI2)
      then have "sublist listEnd c" unfolding c by (rule sublist_appendI2)
      with s0 s1 assms show False by blast
    qed
    then have "findFirst listEnd r2 = None" by (simp add: findFirst_None)
    with Some q \<open>findFirst (sectionStart sec) c = Some p\<close> p show ?thesis
      by (simp add: matchSection_def)
  qed
qed

lemma matchSkills_shape:
  assumes "matchSkills c = Some r"
  shows "\<exists>pre a b inner post.
           c = pre @ skillsStart @ a @ skillsHeading @ b @ smallLine @ inner @ vspaceLine @ post
           \<and> r = \<lparr>textBefore = pre, group1 = skillsStart @ a @ skillsHeading @ b @ smallLine,
                   group2 = inner, group3 = vspaceLine, textAfter = post\<rparr>"
proof (cases "findFirst skillsStart c")
  case None
  with assms show ?thesis by (simp add: matchSkills_def)
next
  case (Some q1)
  obtain pre r1 where q1: "q1 = (pre, r1)" by (cases q1)
  note f1 = Some [unfolded q1]
  show ?thesis
  proof (cases "findFirst skillsHeading r1")
    case None
    with assms f1 show ?thesis by (simp add: matchSkills_def)
  next
    case (Some q2)
    obtain a r2 where q2: "q2 = (a, r2)" by (cases q2)
    note f2 = Some [unfolded q2]
    show ?thesis
    proof (cases "findFirst smallLine r2")
      case None
      with assms f1 f2 show ?thesis by (simp add: matchSkills_def)
    next
      case (Some q3)
      obtain b r3 where q3: "q3 = (b, r3)" by (cases q3)
      note f3 = Some [unfolded q3]
      show ?thesis
      proof (cases "findFirst vspaceLine r3")
        case None
        with assms f1 f2 f3 show ?thesis by (simp add: matchSkills_def)
      next
        case (Some q4)
        obtain inner post where q4: "q4 = (inner, post)" by (cases q4)
        note f4 = Some [unfolded q4]
        from assms f1 f2 f3 f4
        have r: "r = \<lparr>textBefore = pre, group1 = skillsStart @ a @ skillsHeading @ b @ smallLine,
             group2 = inner, group3 = vspaceLine, textAfter = post\<rparr>"
          by (simp add: matchSkills_def)
        from findFirst_Some [OF f1] findFirst_Some [OF f2] findFirst_Some [OF f3]
          findFirst_Some [OF f4]
        have "c = pre @ skillsStart @ a @ skillsHeading @ b @ smallLine @ inner @ vspaceLine @ post"
          by simp
        with r show ?thesis by blast
      qed
    qed
  qed
qed

lemma matchSkills_None:
  assumes "\<not> sublist skillsStart c \<or> \<not> sublist skillsHeading c
           \<or> \<not> sublist smallLine c \<or> \<not> sublist vspaceLine c"
  shows "matchSkills c = None"
proof (rule ccontr)
  assume "matchSkills c \<noteq> None"
  then obtain r where "matchSkills c = Some r" by auto
  from matchSkills_shape [OF this] obtain pre a b inner post where
    c: "c = pre @ skillsStart @ a @ skillsHeading @ b @ smallLine @ inner @ vspaceLine @ post"
    by blast
  have "sublist skillsStart c" unfolding sublist_def using c by blast
  moreover have "c = (pre @ skillsStart @ a) @ skillsHeading @ (b @ smallLine @ inner @ vspaceLine @ post)"
    using c by simp
  then have "sublist skillsHeading c" unfolding sublist_def by blast
  moreover have "c = (pre @ skillsStart @ a @ skillsHeading @ b) @ smallLine @ (inner @ vspaceLine @ post)"
    using c by simp
  then have "sublist smallLine c" unfolding sublist_def by blast
  moreover have "c = (pre @ skillsStart @ a @ skillsHeading @ b @ smallLine @ inner) @ vspaceLine @ post"
    using c by simp
  then have "sublist vspaceLine c" unfolding sublist_def by blast
  ultimately show False using assms by blast
qed

lemma matchSummary_Some:
  "matchSummary c = Some (pre, arg, post) \<Longrightarrow>
     c = pre @ resumeItemOpen @ arg @ ''}'' @ post \<and> sublist sentinel arg \<and> CHR ''}'' \<notin> set arg"
proof (induction c arbitrary: pre)
  case Nil
  then show ?case by simp
next
  case (Cons x xs)
  define rest where "rest = drop (length resumeItemOpen) (x # xs)"
  define arg' where "arg' = takeWhile (\<lambda>y. y \<noteq> CHR ''}'') rest"
  define closing where "closing = dropWhile (\<lambda>y. y \<noteq> CHR ''}'') rest"
  have unfold: "matchSummary (x # xs) =
     (if prefix resumeItemOpen (x # xs) \<and> includes_js arg' sentinel \<and> closing \<noteq> []
      then Some ([], arg', tl closing)
      else map_option (\<lambda>(pre, arg, post). (x # pre, arg, post)) (matchSummary xs))"
    by (simp only: matchSummary.simps Let_def rest_def arg'_def closing_def)
  show ?case
  proof (cases "prefix resumeItemOpen (x # xs) \<and> includes_js arg' sentinel \<and> closing \<noteq> []")
    case True
    have "matchSummary (x # xs) = Some ([], arg', tl closing)"
      unfolding unfold using True by (rule if_P)
    with Cons.prems have e: "pre = []" "arg = arg'" "post = tl closing"
      by simp_all
    from True have ne: "closing \<noteq> []" by simp
    then have "\<not> hd closing \<noteq> CHR ''}''"
      unfolding closing_def by (rule hd_dropWhile)
    with ne have cl: "closing = CHR ''}'' # tl closing" by (cases closing) simp_all
    from True obtain zs where "x # xs = resumeItemOpen @ zs" by (auto elim: prefixE)
    then have "x # xs = resumeItemOpen @ rest" by (simp add: rest_def)
    moreover have "rest = arg' @ closing" by (simp add: arg'_def closing_def)
    ultimately have "x # xs = resumeItemOpen @ arg' @ closing" by simp
    with cl have c: "x # xs = resumeItemOpen @ arg' @ CHR ''}'' # tl closing" by simp
    have "CHR ''}'' \<notin> set arg'" unfolding arg'_def by (auto dest: set_takeWhileD)
    with c True e show ?thesis by (simp add: includes_js_def)
  next
    case False
    have "matchSummary (x # xs) =
        map_option (\<lambda>(pre, arg, post). (x # pre, arg, post)) (matchSummary xs)"
      unfolding unfold using False by (rule if_not_P)
    with Cons.prems have "map_option (\<lambda>(pre, arg, post). (x # pre, arg, post)) (matchSummary xs)
        = Some (pre, arg, post)" by (simp only:)
    then obtain pre' where "matchSummary xs = Some (pre', arg, post)" "pre = x # pre'"
      by (cases "matchSummary xs") auto
    with Cons.IH show ?thesis by auto
  qed
qed

lemma matchSummary_None:
  assumes "\<not> sublist sentinel c \<or> \<not> sublist resumeItemOpen c"
  shows "matchSummary c = None"
proof (rule ccontr)
  assume "matchSummary c \<noteq> None"
  then obtain pre arg post where "matchSummary c = Some (pre, arg, post)" by auto
  from matchSummary_Some [OF this]
  have c: "c = pre @ resumeItemOpen @ arg @ ''}'' @ post" and s: "sublist sentinel arg"
    by simp_all
  from s have "sublist sentinel (resumeItemOpen @ arg @ ''}'' @ post)" by (rule sublist_mid)
  then have "sublist sentinel (pre @ [] @ resumeItemOpen @ arg @ ''}'' @ post)"
    by (rule sublist_appendI2)
  with c have "sublist sentinel c" by simp
  moreover have "sublist resumeItemOpen c" unfolding sublist_def using c by blast
  ultimately show False using assms by blast
qed

lemma replaceMatch_None: "replaceMatch None r c = c"
  by (simp add: replaceMatch_def)

text \<open>
  Claim C1, as the code has it: when one of the markers of a region is absent from the text
  (the start marker of a section, \<^verbatim>\<open>\resumeSubHeadingListStart\<close> or
  \<^verbatim>\<open>\resumeSubHeadingListEnd\<close>; one of the four markers of the Skills region; the
  sentinel phrase or \<^verbatim>\<open>\resumeItem{\<close>), the replacement of that region returns the text
  unchanged, and \<^verbatim>\<open>buildLatexResume\<close> on a template without the start markers and the
  sentinel returns the template as its result; no error is raised.
\<close>

theorem splice_markers_absent:
  "(\<not> sublist (sectionStart sec) c \<or> \<not> sublist listStart c \<or> \<not> sublist listEnd c
      \<longrightarrow> replaceSection c sec newContent = c)
   \<and> (\<not> sublist skillsStart c \<or> \<not> sublist skillsHeading c
        \<or> \<not> sublist smallLine c \<or> \<not> sublist vspaceLine c
      \<longrightarrow> replaceSkillsSection c newContent = c)
   \<and> (\<not> sublist sentinel c \<or> \<not> sublist resumeItemOpen c
      \<longrightarrow> replaceSummary c newContent = c)
   \<and> (\<not> sublist sentinel c \<and> \<not> sublist (sectionStart Experience) c
        \<and> \<not> sublist (sectionStart Projects) c \<and> \<not> sublist skillsStart c
        \<and> buildExperienceSection experience = Inr experienceSection
      \<longrightarrow> buildLatexResume c summaryText experience relevantSkills projects = Inr c)"
proof (intro conjI impI)
  assume h: "\<not> sublist (sectionStart sec) c \<or> \<not> sublist listStart c \<or> \<not> sublist listEnd c"
  show "replaceSection c sec newContent = c"
    unfolding replaceSection_def matchSection_None [OF h] by (rule replaceMatch_None)
next
  assume h: "\<not> sublist skillsStart c \<or> \<not> sublist skillsHeading c
        \<or> \<not> sublist smallLine c \<or> \<not> sublist vspaceLine c"
  show "replaceSkillsSection c newContent = c"
    unfolding replaceSkillsSection_def matchSkills_None [OF h] by (rule replaceMatch_None)
next
  assume "\<not> sublist sentinel c \<or> \<not> sublist resumeItemOpen c"
  then show "replaceSummary c newContent = c"
    by (simp add: replaceSummary_def matchSummary_None)
next
  assume a: "\<not> sublist sentinel c \<and> \<not> sublist (sectionStart Experience) c
        \<and> \<not> sublist (sectionStart Projects) c \<and> \<not> sublist skillsStart c
        \<and> buildExperienceSection experience = Inr experienceSection"
  then have "matchSummary c = None" by (intro matchSummary_None) simp
  then have 1: "\<And>s. replaceSummary c s = c" by (simp add: replaceSummary_def)
  from a have "matchSection Experience c = None" by (intro matchSection_None) simp
  then have 2: "\<And>s. replaceSection c Experience s = c"
    by (simp add: replaceSection_def replaceMatch_None)
  from a have "matchSection Projects c = None" by (intro matchSection_None) simp
  then have 3: "\<And>s. replaceSection c Projects s = c"
    by (simp add: replaceSection_def replaceMatch_None)
  from a have "matchSkills c = None" by (intro matchSkills_None) simp
  then have 4: "\<And>s. replaceSkillsSection c s = c"
    by (simp add: replaceSkillsSection_def replaceMatch_None)
  from a show "buildLatexResume c summaryText experience relevantSkills projects = Inr c"
    by (simp add: buildLatexResume_def Let_def 1 2 3 4)
qed

theorem splice_markers_absent_witness:
  "\<not> sublist (sectionStart Experience) ''plain text''
   \<and> replaceSection ''plain text'' Experience ''new'' = ''plain text''
   \<and> \<not> sublist skillsStart ''plain text''
   \<and> replaceSkillsSection ''plain text'' ''new'' = ''plain text''
   \<and> \<not> sublist sentinel ''plain text''
   \<and> replaceSummary ''plain text'' ''new'' = ''plain text''
   \<and> \<not> sublist (sectionStart Projects) ''plain text''
   \<and> buildExperienceSection [] = Inr []
   \<and> buildLatexResume ''plain text'' ''summary'' [] [] [] = Inr ''plain text''"
proof -
  have a: "\<not> sublist (sectionStart Experience) ''plain text''" by code_simp
  have b: "\<not> sublist skillsStart ''plain text''" by code_simp
  have c: "\<not> sublist sentinel ''plain text''" by code_simp
  have d: "\<not> sublist (sectionStart Projects) ''plain text''" by code_simp
  have e: "buildExperienceSection [] = Inr []" by code_simp
  note t = splice_markers_absent [of Experience "''plain text''" "''new''" "[]" "[]" "''summary''" "[]" "[]"]
  from t a b c d e show ?thesis by blast
qed

text \<open>
  Claim C1 as stated fails on a template without markers: each replacement and the whole
  build return the text unchanged, as a result and not as an error.
\<close>

theorem splice_markers_absent_counterexample:
  "replaceSection ''plain text'' Experience ''new'' = ''plain text''
   \<and> replaceSkillsSection ''plain text'' ''new'' = ''plain text''
   \<and> replaceSummary ''plain text'' ''new'' = ''plain text''
   \<and> buildLatexResume ''plain text'' ''summary'' [] [] [] = Inr ''plain text''"
  by code_simp


section \<open>Properties of generation and of the tool handlers\<close>

text \<open>
  Claim C9: \<^verbatim>\<open>generateResume\<close> never rejects. For every outcome of the loads, every job
  description, job title and time, its promise resolves, to the success object with the
  document and the metadata when the \<^verbatim>\<open>try\<close> block ran to its end, and to the failure object
  with the message of the error when the block raised one.
\<close>

theorem generateResume_always_resolves:
  "snd (generateResume kb now jd jt) =
     Resolved (case generateResumeBody kb jd
                      (case jt of None \<Rightarrow> ''Software Engineer'' | Some t \<Rightarrow> t) now of
                 Inr (latexContent, meta) \<Rightarrow> Success latexContent meta
               | Inl error \<Rightarrow> Failure (message error))
   \<and> ((\<exists>latexContent meta. snd (generateResume kb now jd jt) = Resolved (Success latexContent meta))
      \<or> (\<exists>msg. snd (generateResume kb now jd jt) = Resolved (Failure msg)))"
  by (auto simp: generateResume_def split: sum.splits prod.splits)

text \<open>
  Claim C5, at a job description of three spaces: \<^verbatim>\<open>handleGenerateResume\<close> rejects it
  with the validation error before any effect, whereas \<^verbatim>\<open>handleGenerateAndConvertResume\<close>,
  which has no such check, starts the five loads of the knowledge base for every input and,
  on the sample knowledge base, goes on to return a converted resume.
\<close>

theorem generate_and_convert_skips_validation:
  "take 5 (fst (handleGenerateAndConvertResume kb now converted jd jt fn))
     = [LoadProfileSummary, LoadWorkExperience, LoadSkills, LoadAllProjects, LoadLatexTemplate]
   \<and> handleGenerateResume (Inr sampleKb) ''2026-11-02'' (Inr ()) (JStr ''   '') None None
       = ([], Inl (Error ''Job description is required and cannot be empty''))
   \<and> snd (handleGenerateAndConvertResume (Inr sampleKb) ''2026-11-02''
            (Inr (''output/tailored_resume.pdf'', ''output/tailored_resume.tex''))
            (JStr ''   '') None None)
       = Inr (ResumeConverted
               \<lparr>meta_jobTitle = ''Software Engineer'', meta_generatedAt = ''2026-11-02'',
                meta_experienceCount = 2, meta_projectCount = 1,
                meta_skillCategories = [''programming_languages''],
                meta_atsOptimized = True, meta_singlePage = True\<rparr>
               ''output/tailored_resume.pdf'' ''output/tailored_resume.tex'')"
proof (intro conjI)
  show "take 5 (fst (handleGenerateAndConvertResume kb now converted jd jt fn))
     = [LoadProfileSummary, LoadWorkExperience, LoadSkills, LoadAllProjects, LoadLatexTemplate]"
    by (simp add: handleGenerateAndConvertResume_def generateResume_def Let_def
        split: sum.splits prod.splits settled.splits generation.splits)
  show "handleGenerateResume (Inr sampleKb) ''2026-11-02'' (Inr ()) (JStr ''   '') None None
       = ([], Inl (Error ''Job description is required and cannot be empty''))"
    by code_simp
  show "snd (handleGenerateAndConvertResume (Inr sampleKb) ''2026-11-02''
            (Inr (''output/tailored_resume.pdf'', ''output/tailored_resume.tex''))
            (JStr ''   '') None None)
       = Inr (ResumeConverted
               \<lparr>meta_jobTitle = ''Software Engineer'', meta_generatedAt = ''2026-11-02'',
                meta_experienceCount = 2, meta_projectCount = 1,
                meta_skillCategories = [''programming_languages''],
                meta_atsOptimized = True, meta_singlePage = True\<rparr>
               ''output/tailored_resume.pdf'' ''output/tailored_resume.tex'')"
    by code_simp
qed

section \<open>The frame of the template\<close>

lemma sublist_sep:
  assumes "c \<notin> set n" and "sublist n (x @ c # y)"
  shows "sublist n x \<or> sublist n y"
proof -
  from assms(2) obtain ps ss where e: "x @ c # y = ps @ n @ ss" by (auto simp: sublist_def)
  show ?thesis
  proof (cases "length (ps @ n) \<le> length x")
    case True
    from e have "take (length (ps @ n)) (x @ c # y) = ps @ n" by simp
    with True have "take (length (ps @ n)) x = ps @ n" by simp
    then have "x = ps @ n @ drop (length (ps @ n)) x"
      by (metis append.assoc append_take_drop_id)
    then show ?thesis unfolding sublist_def by blast
  next
    case False
    then have lt: "length x < length ps + length n" by simp
    show ?thesis
    proof (cases "length x < length ps")
      case True
      from e have "drop (Suc (length x)) (x @ c # y) = drop (Suc (length x)) (ps @ n @ ss)" by simp
      then have "y = drop (Suc (length x)) ps @ n @ ss" using True by simp
      then show ?thesis unfolding sublist_def by blast
    next
      case False
      with lt have i: "length x - length ps < length n" and ge: "length ps \<le> length x" by simp_all
      from e have "(x @ c # y) ! length x = (ps @ n @ ss) ! length x" by simp
      then have "c = n ! (length x - length ps)" using i ge by (simp add: nth_append)
      with i assms(1) show ?thesis by (metis nth_mem)
    qed
  qed
qed

lemma sublist_skip:
  assumes "n \<noteq> []" and "hd n \<noteq> c" and "sublist n (c # y)"
  shows "sublist n y"
  using assms by (cases n) (auto simp: sublist_Cons_right)

lemma findFirst_first:
  "findFirst n s = Some (a, b) \<Longrightarrow> n \<noteq> [] \<Longrightarrow> \<not> sublist n (a @ butlast n)"
proof (induction s arbitrary: a)
  case Nil
  then show ?case by (simp split: if_splits)
next
  case (Cons c cs)
  show ?case
  proof (cases "prefix n (c # cs)")
    case True
    with Cons.prems have "a = []" by simp
    moreover have "\<not> sublist n (butlast n)"
    proof
      assume "sublist n (butlast n)"
      then have "length n \<le> length (butlast n)" by (rule sublist_length_le)
      with Cons.prems(2) show False by (cases n rule: rev_cases) simp_all
    qed
    ultimately show ?thesis by simp
  next
    case False
    with Cons.prems obtain a' where f: "findFirst n cs = Some (a', b)" and a: "a = c # a'"
      by (auto split: if_splits)
    from Cons.IH [OF f Cons.prems(2)] have ih: "\<not> sublist n (a' @ butlast n)" .
    from f have cs: "cs = a' @ n @ b" by (rule findFirst_Some)
    have "\<not> prefix n (c # a' @ butlast n)"
    proof
      assume p: "prefix n (c # a' @ butlast n)"
      have "prefix (c # a' @ butlast n) (c # cs)" unfolding cs
        by (cases n rule: rev_cases) (use Cons.prems(2) in simp_all)
      with p have "prefix n (c # cs)" by (rule prefix_order.order_trans)
      with False show False by simp
    qed
    with ih a show ?thesis by (simp add: sublist_Cons_right)
  qed
qed

lemma findFirst_intro:
  "n \<noteq> [] \<Longrightarrow> \<not> sublist n (a @ butlast n) \<Longrightarrow> findFirst n (a @ n @ b) = Some (a, b)"
proof (induction a)
  case Nil
  then show ?case by (cases n) simp_all
next
  case (Cons c a)
  from Cons.prems(2) have np: "\<not> prefix n (c # a @ butlast n)" and ns: "\<not> sublist n (a @ butlast n)"
    by (simp_all add: sublist_Cons_right)
  have "\<not> prefix n (c # a @ n @ b)"
  proof
    assume p: "prefix n (c # a @ n @ b)"
    have "length n \<le> length (c # a @ butlast n)" using Cons.prems(1) by (cases n rule: rev_cases) simp_all
    moreover have "c # a @ n @ b = (c # a @ butlast n) @ (last n # b)"
      using Cons.prems(1) by (cases n rule: rev_cases) simp_all
    ultimately have "prefix n (c # a @ butlast n)" using p
      by (metis prefix_length_prefix prefixI)
    with np show False by simp
  qed
  with Cons.IH [OF Cons.prems(1) ns] show ?case by simp
qed

lemma getSubstitution_plain_append:
  "CHR ''$'' \<notin> set x \<Longrightarrow>
   getSubstitution caps m p f (x @ y) = x @ getSubstitution caps m p f y"
proof (induction x)
  case Nil
  then show ?case by simp
next
  case (Cons c x)
  then have c: "c \<noteq> CHR ''$''" and ih: "getSubstitution caps m p f (x @ y) = x @ getSubstitution caps m p f y"
    by auto
  show ?case
  proof (cases "x @ y")
    case Nil
    with c show ?thesis by simp
  next
    case (Cons d r)
    with c ih show ?thesis by simp
  qed
qed

lemma getSubstitution_plain:
  "CHR ''$'' \<notin> set x \<Longrightarrow> getSubstitution caps m p f x = x"
  using getSubstitution_plain_append [of x caps m p f "[]"] by simp

lemma getSubstitution_group1:
  "getSubstitution [g1, g2, g3] m p f (CHR ''$'' # CHR ''1'' # r)
     = g1 @ getSubstitution [g1, g2, g3] m p f r"
  by (simp add: isDigit_def digitValue_def)

lemma getSubstitution_group3:
  "getSubstitution [g1, g2, g3] m p f ''$3'' = g3"
  by (simp add: isDigit_def digitValue_def)

lemma replaceSection_located:
  assumes "matchSection sec c = Some r" and "CHR ''$'' \<notin> set new"
  shows "replaceSection c sec new =
           textBefore r @ group1 r @ [NL, NL] @ new @ [NL, NL] @ ''  '' @ group3 r @ textAfter r"
proof -
  have "CHR ''$'' \<notin> set ([NL, NL] @ new @ [NL, NL] @ ''  '')" using assms(2) by simp
  then have "getSubstitution [group1 r, group2 r, group3 r] (group1 r @ group2 r @ group3 r)
               (textBefore r) (textAfter r) (([NL, NL] @ new @ [NL, NL] @ ''  '') @ ''$3'')
             = ([NL, NL] @ new @ [NL, NL] @ ''  '') @ group3 r"
    by (simp only: getSubstitution_plain_append [OF \<open>CHR ''$'' \<notin> set ([NL, NL] @ new @ [NL, NL] @ ''  '')\<close>]
          getSubstitution_group3)
  then have "getSubstitution [group1 r, group2 r, group3 r] (group1 r @ group2 r @ group3 r)
               (textBefore r) (textAfter r) (''$1'' @ [NL, NL] @ new @ [NL, NL] @ ''  $3'')
             = group1 r @ [NL, NL] @ new @ [NL, NL] @ ''  '' @ group3 r"
    using getSubstitution_group1 [of "group1 r" "group2 r" "group3 r" "group1 r @ group2 r @ group3 r"
        "textBefore r" "textAfter r" "[NL, NL] @ new @ [NL, NL] @ ''  $3''"]
    by simp
  with assms(1) show ?thesis
    by (simp add: replaceSection_def replaceMatch_def)
qed

lemma replaceSkillsSection_located:
  assumes "matchSkills c = Some r" and "CHR ''$'' \<notin> set new"
  shows "replaceSkillsSection c new = textBefore r @ group1 r @ new @ group3 r @ textAfter r"
proof -
  have "getSubstitution [group1 r, group2 r, group3 r] (group1 r @ group2 r @ group3 r)
               (textBefore r) (textAfter r) (new @ ''$3'')
             = new @ group3 r"
    by (simp only: getSubstitution_plain_append [OF assms(2)] getSubstitution_group3)
  then have "getSubstitution [group1 r, group2 r, group3 r] (group1 r @ group2 r @ group3 r)
               (textBefore r) (textAfter r) (''$1'' @ new @ ''$3'')
             = group1 r @ new @ group3 r"
    using getSubstitution_group1 [of "group1 r" "group2 r" "group3 r" "group1 r @ group2 r @ group3 r"
        "textBefore r" "textAfter r" "new @ ''$3''"]
    by simp
  with assms(1) show ?thesis
    by (simp add: replaceSkillsSection_def replaceMatch_def)
qed

lemma replaceSummary_located:
  assumes "matchSummary c = Some (pre, arg, post)" and "CHR ''$'' \<notin> set new"
  shows "replaceSummary c new = pre @ new @ post"
  using assms by (simp add: replaceSummary_def getSubstitution_plain)

lemma sectionStart_nonempty: "sectionStart sec \<noteq> []"
  by (cases sec) simp_all

lemma matchSection_shift:
  assumes m: "matchSection sec (u @ w) = Some r" and tb: "textBefore r = u"
    and no: "\<not> sublist (sectionStart sec) (u' @ butlast (sectionStart sec))"
  shows "matchSection sec (u' @ w) = Some (r\<lparr>textBefore := u'\<rparr>)"
proof -
  from m obtain pre r1 where f: "findFirst (sectionStart sec) (u @ w) = Some (pre, r1)"
    by (auto simp: matchSection_def split: option.splits)
  from m f tb have pre: "pre = u"
    by (auto simp: matchSection_def split: option.splits)
  from findFirst_Some [OF f] pre have w: "w = sectionStart sec @ r1" by simp
  have f': "findFirst (sectionStart sec) (u' @ w) = Some (u', r1)"
    unfolding w using sectionStart_nonempty no by (rule findFirst_intro)
  from m f pre show ?thesis
    unfolding matchSection_def f f' by (auto split: option.splits)
qed

lemma matchSkills_shift:
  assumes m: "matchSkills (u @ w) = Some r" and tb: "textBefore r = u"
    and no: "\<not> sublist skillsStart (u' @ butlast skillsStart)"
  shows "matchSkills (u' @ w) = Some (r\<lparr>textBefore := u'\<rparr>)"
proof -
  from m obtain pre r1 where f: "findFirst skillsStart (u @ w) = Some (pre, r1)"
    by (auto simp: matchSkills_def split: option.splits)
  from m f tb have pre: "pre = u"
    by (auto simp: matchSkills_def split: option.splits)
  from findFirst_Some [OF f] pre have w: "w = skillsStart @ r1" by simp
  have ne: "skillsStart \<noteq> []" by (simp add: skillsStart_def)
  have f': "findFirst skillsStart (u' @ w) = Some (u', r1)"
    unfolding w using ne no by (rule findFirst_intro)
  from m f pre show ?thesis
    unfolding matchSkills_def f f' by (auto split: option.splits)
qed

lemma matchSection_first:
  assumes "matchSection sec c = Some r"
  shows "\<not> sublist (sectionStart sec) (textBefore r @ butlast (sectionStart sec))"
proof -
  from assms obtain r1 where "findFirst (sectionStart sec) c = Some (textBefore r, r1)"
    by (auto simp: matchSection_def split: option.splits)
  then show ?thesis using sectionStart_nonempty by (rule findFirst_first)
qed

lemma matchSkills_first:
  assumes "matchSkills c = Some r"
  shows "\<not> sublist skillsStart (textBefore r @ butlast skillsStart)"
proof -
  from assms obtain r1 where "findFirst skillsStart c = Some (textBefore r, r1)"
    by (auto simp: matchSkills_def split: option.splits)
  moreover have "skillsStart \<noteq> []" by (simp add: skillsStart_def)
  ultimately show ?thesis by (rule findFirst_first)
qed

lemma free_sep: "c \<notin> set n \<Longrightarrow> \<not> sublist n x \<Longrightarrow> \<not> sublist n y \<Longrightarrow> \<not> sublist n (x @ c # y)"
  using sublist_sep [of c n x y] by blast

lemma free_skip: "n \<noteq> [] \<Longrightarrow> hd n \<noteq> c \<Longrightarrow> \<not> sublist n y \<Longrightarrow> \<not> sublist n (c # y)"
  using sublist_skip [of n c y] by blast

lemma free_part: "\<not> sublist n (u @ x @ v) \<Longrightarrow> \<not> sublist n x"
  using sublist_mid [of n x u v] by blast

lemma matchSection_parts:
  assumes "matchSection sec c = Some r"
  shows "c = textBefore r @ group1 r @ group2 r @ group3 r @ textAfter r \<and> group3 r = listEnd"
proof -
  from assms obtain pre r1 a r2 inner post where
    f1: "findFirst (sectionStart sec) c = Some (pre, r1)" and
    f2: "findFirst listStart r1 = Some (a, r2)" and
    f3: "findFirst listEnd r2 = Some (inner, post)" and
    r: "r = \<lparr>textBefore = pre, group1 = sectionStart sec @ a @ listStart, group2 = inner,
             group3 = listEnd, textAfter = post\<rparr>"
    by (auto simp: matchSection_def split: option.splits)
  from findFirst_Some [OF f1] findFirst_Some [OF f2] findFirst_Some [OF f3] r
  show ?thesis by simp
qed

lemma matchSkills_parts:
  assumes "matchSkills c = Some r"
  shows "c = textBefore r @ group1 r @ group2 r @ group3 r @ textAfter r \<and> group3 r = vspaceLine"
proof -
  from matchSkills_shape [OF assms] obtain pre a b inner post where
    "c = pre @ skillsStart @ a @ skillsHeading @ b @ smallLine @ inner @ vspaceLine @ post"
    "r = \<lparr>textBefore = pre, group1 = skillsStart @ a @ skillsHeading @ b @ smallLine,
           group2 = inner, group3 = vspaceLine, textAfter = post\<rparr>"
    by blast
  then show ?thesis by simp
qed

text \<open>One replacement of a section whose start marker first occurs at the same place.\<close>

lemma replaceSection_frame:
  assumes m: "map_option (\<lambda>r. (textBefore r, group1 r, group2 r)) (matchSection sec (u @ h @ s @ listEnd @ w))
              = Some (u, h, s)"
    and no: "\<not> sublist (sectionStart sec) (u' @ butlast (sectionStart sec))"
    and d: "CHR ''$'' \<notin> set new"
  shows "replaceSection (u' @ h @ s @ listEnd @ w) sec new
           = u' @ h @ [NL, NL] @ new @ [NL, NL] @ ''  '' @ listEnd @ w"
proof -
  from m obtain r where r: "matchSection sec (u @ h @ s @ listEnd @ w) = Some r"
    and tb: "textBefore r = u" and g1: "group1 r = h" and g2: "group2 r = s"
    by auto
  from matchSection_parts [OF r] have g3: "group3 r = listEnd"
    and c: "u @ h @ s @ listEnd @ w = textBefore r @ group1 r @ group2 r @ group3 r @ textAfter r"
    by simp_all
  from c have ta: "textAfter r = w" unfolding tb g1 g2 g3 by simp
  from r have "matchSection sec (u @ (h @ s @ listEnd @ w)) = Some r" by simp
  from matchSection_shift [OF this tb no]
  have "matchSection sec (u' @ h @ s @ listEnd @ w) = Some (r\<lparr>textBefore := u'\<rparr>)" by simp
  from replaceSection_located [OF this d] g1 g3 ta show ?thesis by simp
qed

lemma replaceSkillsSection_frame:
  assumes m: "map_option (\<lambda>r. (textBefore r, group1 r, group2 r)) (matchSkills (u @ h @ s @ vspaceLine @ w))
              = Some (u, h, s)"
    and no: "\<not> sublist skillsStart (u' @ butlast skillsStart)"
    and d: "CHR ''$'' \<notin> set new"
  shows "replaceSkillsSection (u' @ h @ s @ vspaceLine @ w) new = u' @ h @ new @ vspaceLine @ w"
proof -
  from m obtain r where r: "matchSkills (u @ h @ s @ vspaceLine @ w) = Some r"
    and tb: "textBefore r = u" and g1: "group1 r = h" and g2: "group2 r = s"
    by auto
  from matchSkills_parts [OF r] have g3: "group3 r = vspaceLine"
    and c: "u @ h @ s @ vspaceLine @ w = textBefore r @ group1 r @ group2 r @ group3 r @ textAfter r"
    by simp_all
  from c have ta: "textAfter r = w" unfolding tb g1 g2 g3 by simp
  from r have "matchSkills (u @ (h @ s @ vspaceLine @ w)) = Some r" by simp
  from matchSkills_shift [OF this tb no]
  have "matchSkills (u' @ h @ s @ vspaceLine @ w) = Some (r\<lparr>textBefore := u'\<rparr>)" by simp
  from replaceSkillsSection_located [OF this d] g1 g3 ta show ?thesis by simp
qed

lemma replaceSummary_frame:
  assumes m: "map_option (\<lambda>(pre, arg, post). (pre, arg)) (matchSummary (a @ resumeItemOpen @ s @ ''}'' @ w))
              = Some (a, s)"
    and d: "CHR ''$'' \<notin> set new"
  shows "replaceSummary (a @ resumeItemOpen @ s @ ''}'' @ w) new = a @ new @ w"
proof -
  from m obtain post where r: "matchSummary (a @ resumeItemOpen @ s @ ''}'' @ w) = Some (a, s, post)"
    by auto
  from matchSummary_Some [OF r] have "post = w" by simp
  with replaceSummary_located [OF r d] show ?thesis by simp
qed

lemma section_first_frame:
  assumes "map_option (\<lambda>r. (textBefore r, group1 r, group2 r)) (matchSection sec c) = Some (u, h, s)"
  shows "\<not> sublist (sectionStart sec) (u @ butlast (sectionStart sec))"
proof -
  from assms obtain r where "matchSection sec c = Some r" "textBefore r = u" by auto
  with matchSection_first show ?thesis by blast
qed

lemma skills_first_frame:
  assumes "map_option (\<lambda>r. (textBefore r, group1 r, group2 r)) (matchSkills c) = Some (u, h, s)"
  shows "\<not> sublist skillsStart (u @ butlast skillsStart)"
proof -
  from assms obtain r where "matchSkills c = Some r" "textBefore r = u" by auto
  with matchSkills_first show ?thesis by blast
qed

lemma free_summary:
  assumes "BSL \<notin> set n" and "CHR ''}'' \<notin> set n"
    and "\<not> sublist n a" and "\<not> sublist n (BSL # y @ ''}'')" and "\<not> sublist n rest"
  shows "\<not> sublist n (a @ (BSL # y @ ''}'') @ rest)"
proof -
  from assms(4) free_part [of n "[BSL]" y "''}''"] have "\<not> sublist n y" by simp
  from free_sep [OF assms(2) this assms(5)] have "\<not> sublist n (y @ CHR ''}'' # rest)" .
  from free_sep [OF assms(1) assms(3) this] show ?thesis by simp
qed

lemma free_block:
  assumes "NL \<notin> set n" and "n \<noteq> []" and "hd n \<noteq> NL" and "hd n \<noteq> CHR '' ''"
    and "\<not> sublist n x" and "\<not> sublist n b" and "\<not> sublist n rest"
  shows "\<not> sublist n (x @ [NL, NL] @ b @ [NL, NL] @ ''  '' @ rest)"
proof -
  from free_skip [OF assms(2,4,7)] have "\<not> sublist n (CHR '' '' # rest)" .
  from free_skip [OF assms(2,4) this] have "\<not> sublist n (CHR '' '' # CHR '' '' # rest)" .
  from free_skip [OF assms(2,3) this] have "\<not> sublist n (NL # CHR '' '' # CHR '' '' # rest)" .
  from free_sep [OF assms(1,6) this]
  have "\<not> sublist n (b @ NL # NL # CHR '' '' # CHR '' '' # rest)" .
  from free_skip [OF assms(2,3) this]
  have "\<not> sublist n (NL # b @ NL # NL # CHR '' '' # CHR '' '' # rest)" .
  from free_sep [OF assms(1,5) this] show ?thesis by simp
qed

lemma sectionStart_chars:
  "BSL \<notin> set (sectionStart sec)" "CHR ''}'' \<notin> set (sectionStart sec)"
  "NL \<notin> set (sectionStart sec)" "hd (sectionStart sec) \<noteq> NL"
  "hd (sectionStart sec) \<noteq> CHR '' ''"
  by (cases sec; simp)+

lemma skillsStart_chars:
  "BSL \<notin> set skillsStart" "CHR ''}'' \<notin> set skillsStart"
  "NL \<notin> set skillsStart" "hd skillsStart \<noteq> NL" "hd skillsStart \<noteq> CHR '' ''"
  "skillsStart \<noteq> []"
  by (simp_all add: skillsStart_def)

text \<open>
  Conditions under which the splicing keeps the frame. Let the template consist of a frame
  and four inner spans, and let each of the four patterns find its span at the place the frame
  gives it (the template contains all named regions, in the order summary, Experience,
  Projects, Skills). Let the summary command and the three rendered blocks contain no dollar
  sign, and let no start marker of a region that is spliced later occur in a text that is
  spliced earlier. Then \<^verbatim>\<open>buildLatexResume\<close> returns the same frame around the four new
  spans. The conditions are sufficient, not necessary.
\<close>

lemma buildLatexResume_frame:
  assumes regions: "templateRegions fr s1 s2 s3 s4"
    and exp: "buildExperienceSection experience = Inr experienceSection"
    and d1: "CHR ''$'' \<notin> set (summarySectionOf summaryText)"
    and d2: "CHR ''$'' \<notin> set experienceSection"
    and d3: "CHR ''$'' \<notin> set (buildProjectsSection projects)"
    and d4: "CHR ''$'' \<notin> set (buildSkillsSection relevantSkills)"
    and e1: "\<not> sublist (sectionStart Experience) (summarySectionOf summaryText)"
    and p1: "\<not> sublist (sectionStart Projects) (summarySectionOf summaryText)"
    and p2: "\<not> sublist (sectionStart Projects) experienceSection"
    and k1: "\<not> sublist skillsStart (summarySectionOf summaryText)"
    and k2: "\<not> sublist skillsStart experienceSection"
    and k3: "\<not> sublist skillsStart (buildProjectsSection projects)"
  shows "buildLatexResume (fillFrame fr s1 s2 s3 s4) summaryText experience relevantSkills projects
         = Inr (fillFrame fr
                  ([NL] @ ''  '' @ sanitizeLatex (JStr summaryText) @ [NL])
                  ([NL, NL] @ experienceSection @ [NL, NL] @ ''  '')
                  ([NL, NL] @ buildProjectsSection projects @ [NL, NL] @ ''  '')
                  (buildSkillsSection relevantSkills))"
proof -
  define a0 where "a0 = beforeSummary fr"
  define a1 where "a1 = afterSummary fr"
  define eh where "eh = experienceHead fr"
  define a2 where "a2 = afterExperience fr"
  define ph where "ph = projectsHead fr"
  define a3 where "a3 = afterProjects fr"
  define kh where "kh = skillsHead fr"
  define a4 where "a4 = afterSkills fr"
  define y where "y = ''resumeItem{'' @ [NL] @ ''  '' @ sanitizeLatex (JStr summaryText) @ [NL]"
  define X where "X = BSL # y @ ''}''"
  define E where "E = experienceSection"
  define P where "P = buildProjectsSection projects"
  define K where "K = buildSkillsSection relevantSkills"
  define ME where "ME = sectionStart Experience"
  define MP where "MP = sectionStart Projects"
  define w4 where "w4 = kh @ s4 @ vspaceLine @ a4"
  define w3 where "w3 = ph @ s3 @ listEnd @ a3 @ w4"
  define u1 where "u1 = a0 @ resumeItemOpen @ s1 @ ''}'' @ a1"
  define u2 where "u2 = u1 @ eh @ s2 @ listEnd @ a2"
  define u3 where "u3 = u2 @ ph @ s3 @ listEnd @ a3"
  define v1 where "v1 = a0 @ X @ a1"
  define v2 where "v2 = v1 @ eh @ [NL, NL] @ E @ [NL, NL] @ ''  '' @ listEnd @ a2"
  define v3 where "v3 = v2 @ ph @ [NL, NL] @ P @ [NL, NL] @ ''  '' @ listEnd @ a3"
  note names = a0_def a1_def eh_def a2_def ph_def a3_def kh_def a4_def
  have X: "summarySectionOf summaryText = X"
    by (simp add: summarySectionOf_def X_def y_def)
  have t: "fillFrame fr s1 s2 s3 s4 = a0 @ resumeItemOpen @ s1 @ ''}'' @ a1 @ eh @ s2 @ listEnd @ a2 @ w3"
    by (simp add: fillFrame_def names w3_def w4_def)
  from regions
  have r1: "map_option (\<lambda>(pre, arg, post). (pre, arg))
              (matchSummary (a0 @ resumeItemOpen @ s1 @ ''}'' @ a1 @ eh @ s2 @ listEnd @ a2 @ w3))
            = Some (a0, s1)"
    by (simp add: templateRegions_def Let_def fillFrame_def names w3_def w4_def)
  from regions
  have r2: "map_option (\<lambda>r. (textBefore r, group1 r, group2 r))
              (matchSection Experience (u1 @ eh @ s2 @ listEnd @ a2 @ w3))
            = Some (u1, eh, s2)"
    by (simp add: templateRegions_def Let_def fillFrame_def names w3_def w4_def u1_def)
  from regions
  have r3: "map_option (\<lambda>r. (textBefore r, group1 r, group2 r))
              (matchSection Projects (u2 @ ph @ s3 @ listEnd @ a3 @ w4))
            = Some (u2, ph, s3)"
    by (simp add: templateRegions_def Let_def fillFrame_def names w4_def u1_def u2_def)
  from regions
  have r4: "map_option (\<lambda>r. (textBefore r, group1 r, group2 r))
              (matchSkills (u3 @ kh @ s4 @ vspaceLine @ a4))
            = Some (u3, kh, s4)"
    by (simp add: templateRegions_def Let_def fillFrame_def names u1_def u2_def u3_def)
  from section_first_frame [OF r2] have f2: "\<not> sublist ME (u1 @ butlast ME)" by (simp add: ME_def)
  from section_first_frame [OF r3] have f3: "\<not> sublist MP (u2 @ butlast MP)" by (simp add: MP_def)
  from skills_first_frame [OF r4] have f4: "\<not> sublist skillsStart (u3 @ butlast skillsStart)" .

  \<comment> \<open>the summary\<close>
  have c1: "replaceSummary (fillFrame fr s1 s2 s3 s4) (summarySectionOf summaryText)
            = v1 @ eh @ s2 @ listEnd @ a2 @ w3"
    unfolding t using replaceSummary_frame [OF r1 d1] by (simp add: X v1_def)

  \<comment> \<open>the Experience section\<close>
  have "\<not> sublist ME a0"
    using f2 free_part [of ME "[]" a0 "resumeItemOpen @ s1 @ ''}'' @ a1 @ butlast ME"]
    by (simp add: u1_def)
  moreover have "\<not> sublist ME (a1 @ butlast ME)"
    using f2 free_part [of ME "a0 @ resumeItemOpen @ s1 @ ''}''" "a1 @ butlast ME" "[]"]
    by (simp add: u1_def)
  moreover have "\<not> sublist ME (BSL # y @ ''}'')" using e1 by (simp add: X X_def ME_def)
  ultimately have "\<not> sublist ME (a0 @ (BSL # y @ ''}'') @ a1 @ butlast ME)"
    unfolding ME_def by (intro free_summary sectionStart_chars)
  then have n2: "\<not> sublist (sectionStart Experience) (v1 @ butlast (sectionStart Experience))"
    by (simp add: v1_def X_def ME_def)
  have c2: "replaceSection (v1 @ eh @ s2 @ listEnd @ a2 @ w3) Experience E
            = v2 @ ph @ s3 @ listEnd @ a3 @ w4"
    using replaceSection_frame [OF r2 n2, of E] d2 by (simp add: E_def v2_def w3_def)

  \<comment> \<open>the Projects section\<close>
  have "\<not> sublist MP a0"
    using f3 free_part [of MP "[]" a0 "resumeItemOpen @ s1 @ ''}'' @ a1 @ eh @ s2 @ listEnd @ a2 @ butlast MP"]
    by (simp add: u1_def u2_def)
  moreover have "\<not> sublist MP (a1 @ eh)"
    using f3 free_part [of MP "a0 @ resumeItemOpen @ s1 @ ''}''" "a1 @ eh" "s2 @ listEnd @ a2 @ butlast MP"]
    by (simp add: u1_def u2_def)
  moreover have "\<not> sublist MP (BSL # y @ ''}'')" using p1 by (simp add: X X_def MP_def)
  ultimately have x3: "\<not> sublist MP (a0 @ (BSL # y @ ''}'') @ a1 @ eh)"
    unfolding MP_def by (intro free_summary sectionStart_chars)
  have "\<not> sublist MP (listEnd @ a2 @ butlast MP)"
    using f3 free_part [of MP "a0 @ resumeItemOpen @ s1 @ ''}'' @ a1 @ eh @ s2" "listEnd @ a2 @ butlast MP" "[]"]
    by (simp add: u1_def u2_def)
  moreover have "\<not> sublist MP E" using p2 by (simp add: E_def MP_def)
  ultimately have "\<not> sublist MP ((a0 @ (BSL # y @ ''}'') @ a1 @ eh) @ [NL, NL] @ E @ [NL, NL] @ ''  ''
                     @ listEnd @ a2 @ butlast MP)"
    using x3 unfolding MP_def by (intro free_block sectionStart_chars sectionStart_nonempty)
  then have n3: "\<not> sublist (sectionStart Projects) (v2 @ butlast (sectionStart Projects))"
    by (simp add: v2_def v1_def X_def MP_def)
  have c3: "replaceSection (v2 @ ph @ s3 @ listEnd @ a3 @ w4) Projects P
            = v3 @ kh @ s4 @ vspaceLine @ a4"
    using replaceSection_frame [OF r3 n3, of P] d3 by (simp add: P_def v3_def w4_def)

  \<comment> \<open>the Skills section\<close>
  let ?MS = skillsStart
  have "\<not> sublist ?MS a0"
    using f4 free_part [of ?MS "[]" a0 "resumeItemOpen @ s1 @ ''}'' @ a1 @ eh @ s2 @ listEnd @ a2
           @ ph @ s3 @ listEnd @ a3 @ butlast ?MS"]
    by (simp add: u1_def u2_def u3_def)
  moreover have "\<not> sublist ?MS (a1 @ eh)"
    using f4 free_part [of ?MS "a0 @ resumeItemOpen @ s1 @ ''}''" "a1 @ eh"
           "s2 @ listEnd @ a2 @ ph @ s3 @ listEnd @ a3 @ butlast ?MS"]
    by (simp add: u1_def u2_def u3_def)
  moreover have "\<not> sublist ?MS (BSL # y @ ''}'')" using k1 by (simp add: X X_def)
  ultimately have x4: "\<not> sublist ?MS (a0 @ (BSL # y @ ''}'') @ a1 @ eh)"
    by (intro free_summary skillsStart_chars)
  have "\<not> sublist ?MS (listEnd @ a2 @ ph)"
    using f4 free_part [of ?MS "a0 @ resumeItemOpen @ s1 @ ''}'' @ a1 @ eh @ s2" "listEnd @ a2 @ ph"
           "s3 @ listEnd @ a3 @ butlast ?MS"]
    by (simp add: u1_def u2_def u3_def)
  moreover have "\<not> sublist ?MS E" using k2 by (simp add: E_def)
  ultimately have y4: "\<not> sublist ?MS ((a0 @ (BSL # y @ ''}'') @ a1 @ eh) @ [NL, NL] @ E @ [NL, NL] @ ''  ''
                     @ listEnd @ a2 @ ph)"
    using x4 by (intro free_block skillsStart_chars)
  have z4: "\<not> sublist ?MS (listEnd @ a3 @ butlast ?MS)"
    using f4 free_part [of ?MS "a0 @ resumeItemOpen @ s1 @ ''}'' @ a1 @ eh @ s2 @ listEnd @ a2 @ ph @ s3"
           "listEnd @ a3 @ butlast ?MS" "[]"]
    by (simp add: u1_def u2_def u3_def)
  have kP: "\<not> sublist ?MS P" using k3 by (simp add: P_def)
  have "\<not> sublist ?MS (((a0 @ (BSL # y @ ''}'') @ a1 @ eh) @ [NL, NL] @ E @ [NL, NL] @ ''  ''
                     @ listEnd @ a2 @ ph) @ [NL, NL] @ P @ [NL, NL] @ ''  '' @ listEnd @ a3 @ butlast ?MS)"
    by (rule free_block [OF skillsStart_chars(3) skillsStart_chars(6) skillsStart_chars(4)
          skillsStart_chars(5) y4 kP z4])
  then have n4: "\<not> sublist skillsStart (v3 @ butlast skillsStart)"
    by (simp add: v3_def v2_def v1_def X_def)
  have c4: "replaceSkillsSection (v3 @ kh @ s4 @ vspaceLine @ a4) K = v3 @ kh @ K @ vspaceLine @ a4"
    using replaceSkillsSection_frame [OF r4 n4, of K] d4 by (simp add: K_def)

  have fin: "v3 @ kh @ K @ vspaceLine @ a4
        = fillFrame fr
                  ([NL] @ ''  '' @ sanitizeLatex (JStr summaryText) @ [NL])
                  ([NL, NL] @ experienceSection @ [NL, NL] @ ''  '')
                  ([NL, NL] @ buildProjectsSection projects @ [NL, NL] @ ''  '')
                  (buildSkillsSection relevantSkills)"
    by (simp add: fillFrame_def names v3_def v2_def v1_def X_def y_def E_def P_def K_def
        resumeItemOpen_def)
  show ?thesis
    unfolding buildLatexResume_def Let_def exp sum.case c1
    unfolding E_def [symmetric] c2 P_def [symmetric] c3 K_def [symmetric] c4 fin ..
qed

text \<open>The sample template with ordinary content: the frame is kept.\<close>

lemma buildLatexResume_frame_example:
  "templateRegions sampleFrame ''Software Engineer with 2 years of experience''
       ([NL] @ ''OLD EXPERIENCE'' @ [NL]) ([NL] @ ''OLD PROJECTS'' @ [NL]) ''OLD SKILLS''
   \<and> buildExperienceSection sampleExperience = Inr (sampleExperienceSection)
   \<and> CHR ''$'' \<notin> set (summarySectionOf ''Software Engineer with 2+ years of Node.js'')
   \<and> CHR ''$'' \<notin> set (buildSkillsSection sampleSkills)
   \<and> \<not> sublist (sectionStart Experience) (summarySectionOf ''Software Engineer with 2+ years of Node.js'')
   \<and> \<not> sublist (sectionStart Projects) (sampleExperienceSection)
   \<and> buildLatexResume sampleTemplate ''Software Engineer with 2+ years of Node.js''
         sampleExperience sampleSkills []
       = Inr (fillFrame sampleFrame
                ([NL] @ ''  '' @ sanitizeLatex (JStr ''Software Engineer with 2+ years of Node.js'') @ [NL])
                ([NL, NL] @ sampleExperienceSection @ [NL, NL] @ ''  '')
                ([NL, NL] @ buildProjectsSection [] @ [NL, NL] @ ''  '')
                (buildSkillsSection sampleSkills))"
proof -
  let ?summ = "''Software Engineer with 2+ years of Node.js''"
  let ?E = "sampleExperienceSection"
  have r: "templateRegions sampleFrame ''Software Engineer with 2 years of experience''
       ([NL] @ ''OLD EXPERIENCE'' @ [NL]) ([NL] @ ''OLD PROJECTS'' @ [NL]) ''OLD SKILLS''"
    by code_simp
  have e: "buildExperienceSection sampleExperience = Inr ?E" by code_simp
  have d1: "CHR ''$'' \<notin> set (summarySectionOf ?summ)" by code_simp
  have d2: "CHR ''$'' \<notin> set ?E" by code_simp
  have d3: "CHR ''$'' \<notin> set (buildProjectsSection [])" by code_simp
  have d4: "CHR ''$'' \<notin> set (buildSkillsSection sampleSkills)" by code_simp
  have e1: "\<not> sublist (sectionStart Experience) (summarySectionOf ?summ)" by code_simp
  have p1: "\<not> sublist (sectionStart Projects) (summarySectionOf ?summ)" by code_simp
  have p2: "\<not> sublist (sectionStart Projects) ?E" by code_simp
  have k1: "\<not> sublist skillsStart (summarySectionOf ?summ)" by code_simp
  have k2: "\<not> sublist skillsStart ?E" by code_simp
  have k3: "\<not> sublist skillsStart (buildProjectsSection [])" by code_simp
  from buildLatexResume_frame [OF r e d1 d2 d3 d4 e1 p1 p2 k1 k2 k3]
  have "buildLatexResume sampleTemplate ?summ sampleExperience sampleSkills []
       = Inr (fillFrame sampleFrame
                ([NL] @ ''  '' @ sanitizeLatex (JStr ?summ) @ [NL])
                ([NL, NL] @ ?E @ [NL, NL] @ ''  '')
                ([NL, NL] @ buildProjectsSection [] @ [NL, NL] @ ''  '')
                (buildSkillsSection sampleSkills))"
    by (simp only: sampleTemplate_def)
  with r e d1 d4 e1 p2 show ?thesis by blast
qed

text \<open>
  A dollar sign in a rendered block is read by \<^verbatim>\<open>String.prototype.replace\<close> as the start of a
  replacement pattern: the bullet \<^verbatim>\<open>Saved $1M\<close>, sanitized, still holds \<^verbatim>\<open>$1\<close>, and the head of the
  region is pasted into the block in its place.
\<close>

lemma replaceSection_dollar_pattern:
  "sanitizeLatex (JStr ''Saved $1M'') = ''Saved '' @ [BSL] @ ''$1M''
   \<and> replaceSection (sectionStart Experience @ listStart @ ''old'' @ listEnd) Experience
         (''Saved '' @ [BSL] @ ''$1M'')
       = sectionStart Experience @ listStart @ [NL, NL]
         @ ''Saved '' @ [BSL] @ sectionStart Experience @ listStart @ ''M''
         @ [NL, NL] @ ''  '' @ listEnd"
  by code_simp

text \<open>
  Claim C7: for every template containing all named regions and every set of rendered blocks,
  the output of \<^verbatim>\<open>buildLatexResume\<close> is the frame of the template around new inner spans, every
  marker token and all markup around the spans unchanged; the comments of the code ask the
  same (\<^emph>\<open>Template format must NEVER be altered\<close>, \<^emph>\<open>NEVER modify structure\<close>). The code does
  otherwise when a dynamic text holds marker text. The sample template contains all named
  regions. With a summary that holds the Experience start marker followed by
  \<^verbatim>\<open>\resumeSubHeadingListStart\<close>, the Experience pattern matches from inside the new summary up
  to the end of the real Experience region: the closing brace of the summary command, the
  markup after it and the head of the Experience region are gone from the output, which
  therefore is not the frame of the template around any four spans.
\<close>

theorem buildLatexResume_marker_in_summary:
  "templateRegions sampleFrame ''Software Engineer with 2 years of experience''
       ([NL] @ ''OLD EXPERIENCE'' @ [NL]) ([NL] @ ''OLD PROJECTS'' @ [NL]) ''OLD SKILLS''
   \<and> buildLatexResume sampleTemplate markerSummary [] [] []
       = Inr (beforeSummary sampleFrame @ resumeItemOpen @ [NL] @ ''  '' @ [BSL] @ markerSummary
              @ [NL, NL, NL, NL] @ ''  '' @ listEnd @ afterExperience sampleFrame
              @ projectsHead sampleFrame @ [NL, NL, NL, NL] @ ''  '' @ listEnd
              @ afterProjects sampleFrame @ skillsHead sampleFrame @ vspaceLine
              @ afterSkills sampleFrame)
   \<and> \<not> sublist (''}'' @ afterSummary sampleFrame @ experienceHead sampleFrame)
         (beforeSummary sampleFrame @ resumeItemOpen @ [NL] @ ''  '' @ [BSL] @ markerSummary
              @ [NL, NL, NL, NL] @ ''  '' @ listEnd @ afterExperience sampleFrame
              @ projectsHead sampleFrame @ [NL, NL, NL, NL] @ ''  '' @ listEnd
              @ afterProjects sampleFrame @ skillsHead sampleFrame @ vspaceLine
              @ afterSkills sampleFrame)
   \<and> (\<forall>x1 x2 x3 x4. buildLatexResume sampleTemplate markerSummary [] [] []
          \<noteq> Inr (fillFrame sampleFrame x1 x2 x3 x4))"
proof -
  let ?out = "beforeSummary sampleFrame @ resumeItemOpen @ [NL] @ ''  '' @ [BSL] @ markerSummary
              @ [NL, NL, NL, NL] @ ''  '' @ listEnd @ afterExperience sampleFrame
              @ projectsHead sampleFrame @ [NL, NL, NL, NL] @ ''  '' @ listEnd
              @ afterProjects sampleFrame @ skillsHead sampleFrame @ vspaceLine
              @ afterSkills sampleFrame"
  let ?piece = "''}'' @ afterSummary sampleFrame @ experienceHead sampleFrame"
  have r: "templateRegions sampleFrame ''Software Engineer with 2 years of experience''
       ([NL] @ ''OLD EXPERIENCE'' @ [NL]) ([NL] @ ''OLD PROJECTS'' @ [NL]) ''OLD SKILLS''"
    by code_simp
  have b: "buildLatexResume sampleTemplate markerSummary [] [] [] = Inr ?out" by code_simp
  have n: "\<not> sublist ?piece ?out" by code_simp
  have "\<And>x1 x2 x3 x4. buildLatexResume sampleTemplate markerSummary [] [] []
          \<noteq> Inr (fillFrame sampleFrame x1 x2 x3 x4)"
  proof
    fix x1 x2 x3 x4
    assume "buildLatexResume sampleTemplate markerSummary [] [] [] = Inr (fillFrame sampleFrame x1 x2 x3 x4)"
    with b have o: "?out = fillFrame sampleFrame x1 x2 x3 x4" by simp
    have "fillFrame sampleFrame x1 x2 x3 x4 =
        (beforeSummary sampleFrame @ resumeItemOpen @ x1) @ ?piece
        @ (x2 @ listEnd @ afterExperience sampleFrame
           @ projectsHead sampleFrame @ x3 @ listEnd @ afterProjects sampleFrame
           @ skillsHead sampleFrame @ x4 @ vspaceLine @ afterSkills sampleFrame)"
      by (simp add: fillFrame_def)
    then have "sublist ?piece (fillFrame sampleFrame x1 x2 x3 x4)"
      unfolding sublist_def by blast
    with o n show False by simp
  qed
  with r b n show ?thesis by blast
qed

end
